theory Spec2Isabelle
  imports Main
begin

section \<open>Ledger primitives\<close>

text \<open>
  The three contracts (AIAssetNFT, Marketplace, LicenseManager) are Solidity 0.8 code.
  An address is a number, \<open>0\<close> being \<open>address(0)\<close>. A \<open>uint256\<close> is a natural
  number below \<open>2 ^ 256\<close>; arithmetic is checked, so an overflowing \<open>+\<close> or \<open>*\<close> and an
  underflowing \<open>-\<close> revert the transaction (\<open>Panic\<close>). A reverted call leaves every
  piece of storage and every balance as it was: an operation returns \<open>Inl\<close> of the
  error and no new state, or \<open>Inr\<close> of the state after the call.
  \<open>block.timestamp\<close>, \<open>msg.sender\<close> and \<open>msg.value\<close> are explicit arguments.
  Events are not part of the state and are left out.
\<close>

type_synonym address = nat

datatype error =
    Paused                \<comment> \<open>"Pausable: paused"\<close>
  | NotAdmin              \<comment> \<open>"Ownable: caller is not the owner"\<close>
  | InvalidToken          \<comment> \<open>"ERC721: invalid token ID", "ERC721: token already minted"\<close>
  | NotApproved           \<comment> \<open>"ERC721: caller is not token owner or approved"\<close>
  | InvalidReceiver       \<comment> \<open>ERC721 transfer or approval to a forbidden address\<close>
  | NotOwner              \<comment> \<open>"Not the asset owner", "ERC721: transfer from incorrect owner"\<close>
  | InvalidInput          \<comment> \<open>a required field is empty or zero\<close>
  | DuplicateContent      \<comment> \<open>"IPFS hash already used"\<close>
  | InvalidRoyalty        \<comment> \<open>"Royalty cannot exceed 10%"\<close>
  | NotForSale            \<comment> \<open>"Asset not for sale"\<close>
  | InsufficientPayment   \<comment> \<open>"Insufficient payment"\<close>
  | SelfTrade             \<comment> \<open>"Cannot buy own asset", "Cannot buy own order", "Cannot bid on own auction"\<close>
  | OrderNotFound         \<comment> \<open>"Order does not exist"\<close>
  | OrderInactive         \<comment> \<open>"Order not active"\<close>
  | OrderExpired          \<comment> \<open>"Order expired"\<close>
  | WrongOrderKind        \<comment> \<open>"This is an auction order", "This is not an auction order"\<close>
  | BidTooLow             \<comment> \<open>"Bid must be higher than current highest bid", "Bid must be at least the starting price"\<close>
  | IsHighestBidder       \<comment> \<open>"Cannot withdraw highest bid"\<close>
  | NoBidFound            \<comment> \<open>"No bid found"\<close>
  | NotExpired            \<comment> \<open>"Auction not ended yet"\<close>
  | AlreadyEnded          \<comment> \<open>"Auction already ended"\<close>
  | NoBids                \<comment> \<open>"No bids placed"\<close>
  | NotSeller             \<comment> \<open>"Not the order owner"\<close>
  | AlreadySold           \<comment> \<open>"Order already sold"\<close>
  | FeeTooHigh            \<comment> \<open>"Fee too high"\<close>
  | NotLicensable         \<comment> \<open>"Asset not licensable"\<close>
  | InvalidLicensee       \<comment> \<open>"Invalid licensee", "Cannot license to self"\<close>
  | LicenseNotFound       \<comment> \<open>"License does not exist"\<close>
  | LicenseInactive       \<comment> \<open>"License not active"\<close>
  | LicenseExpired        \<comment> \<open>"License expired"\<close>
  | NotLicensee           \<comment> \<open>"Not the licensee"\<close>
  | NotLicensor           \<comment> \<open>"Not the license owner"\<close>
  | LengthMismatch        \<comment> \<open>"Arrays length mismatch"\<close>
  | InsufficientFunds     \<comment> \<open>the caller cannot fund \<open>msg.value\<close>\<close>
  | TransferFailed        \<comment> \<open>\<open>transfer\<close> of more ether than the contract holds\<close>
  | Panic                 \<comment> \<open>checked arithmetic overflow or underflow\<close>

definition MAX_UINT256 :: nat where
  "MAX_UINT256 = 2 ^ 256 - 1"

definition bindE :: "error + 'a \<Rightarrow> ('a \<Rightarrow> error + 'b) \<Rightarrow> error + 'b" where
  "bindE r f = (case r of Inl e \<Rightarrow> Inl e | Inr x \<Rightarrow> f x)"

definition checked_add :: "nat \<Rightarrow> nat \<Rightarrow> error + nat" where
  "checked_add a b = (if a + b \<le> MAX_UINT256 then Inr (a + b) else Inl Panic)"

definition checked_mul :: "nat \<Rightarrow> nat \<Rightarrow> error + nat" where
  "checked_mul a b = (if a * b \<le> MAX_UINT256 then Inr (a * b) else Inl Panic)"

definition checked_sub :: "nat \<Rightarrow> nat \<Rightarrow> error + nat" where
  "checked_sub a b = (if b \<le> a then Inr (a - b) else Inl Panic)"

text \<open>
  Ether. A payable call moves \<open>msg.value\<close> from the caller to the contract before the
  body runs. \<open>payable(to).transfer(v)\<close> moves \<open>v\<close> out of the contract and reverts when
  the contract holds less than \<open>v\<close>. Recipients are taken to be plain accounts, which
  accept every payment.
\<close>

type_synonym ledger = "address \<Rightarrow> nat"

definition pay_in :: "address \<Rightarrow> address \<Rightarrow> nat \<Rightarrow> ledger \<Rightarrow> error + ledger" where
  "pay_in sender this v bal =
     (if bal sender < v then Inl InsufficientFunds
      else let b1 = bal(sender := bal sender - v) in Inr (b1(this := b1 this + v)))"

definition transfer :: "address \<Rightarrow> address \<Rightarrow> nat \<Rightarrow> ledger \<Rightarrow> error + ledger" where
  "transfer this to v bal =
     (if bal this < v then Inl TransferFailed
      else let b1 = bal(this := bal this - v) in Inr (b1(to := b1 to + v)))"

section \<open>AIAssetNFT\<close>

datatype AssetType = MODEL | SCRIPT | DATASET

record Asset =
  tokenId :: nat
  assetType :: AssetType
  name :: string
  description :: string
  version :: string
  creator :: address
  createdAt :: nat
  updatedAt :: nat
  ipfsHash :: string
  isPublic :: bool
  royaltyPercentage :: nat
  price :: nat
  isForSale :: bool

record Version =
  v_version :: string
  v_ipfsHash :: string
  v_timestamp :: nat
  changelog :: string

definition emptyAsset :: Asset where
  "emptyAsset = \<lparr> tokenId = 0, assetType = MODEL, name = [], description = [],
     version = [], creator = 0, createdAt = 0, updatedAt = 0, ipfsHash = [],
     isPublic = False, royaltyPercentage = 0, price = 0, isForSale = False \<rparr>"

text \<open>
  The storage of the token contract. \<open>owners\<close>, \<open>tokenApprovals\<close> and
  \<open>operatorApprovals\<close> are the storage of the ERC721 base contract the token inherits
  (an imported library): \<open>owners t = 0\<close> is a token that does not exist.
\<close>

record nft_state =
  nft_owner :: address
  nft_paused :: bool
  tokenIdCounter :: nat
  owners :: "nat \<Rightarrow> address"
  tokenApprovals :: "nat \<Rightarrow> address"
  operatorApprovals :: "address \<Rightarrow> address \<Rightarrow> bool"
  tokenURIs :: "nat \<Rightarrow> string"
  assets :: "nat \<Rightarrow> Asset"
  assetVersions :: "nat \<Rightarrow> Version list"
  creatorAssets :: "address \<Rightarrow> nat list"
  usedIPFSHashes :: "string \<Rightarrow> bool"

definition ownerOf :: "nft_state \<Rightarrow> nat \<Rightarrow> error + address" where
  "ownerOf s t = (if owners s t = 0 then Inl InvalidToken else Inr (owners s t))"

definition safeMint :: "address \<Rightarrow> nat \<Rightarrow> nft_state \<Rightarrow> error + nft_state" where
  "safeMint to t s =
     (if to = 0 then Inl InvalidReceiver
      else if owners s t \<noteq> 0 then Inl InvalidToken
      else Inr (s\<lparr> owners := (owners s)(t := to) \<rparr>))"

definition isApprovedOrOwner :: "nft_state \<Rightarrow> address \<Rightarrow> nat \<Rightarrow> error + bool" where
  "isApprovedOrOwner s spender t =
     bindE (ownerOf s t) (\<lambda>owner.
       Inr (spender = owner \<or> operatorApprovals s owner spender \<or> tokenApprovals s t = spender))"

text \<open>\<open>_transfer\<close> of ERC721: it moves the token and clears its single approval.\<close>

definition erc721_transfer :: "address \<Rightarrow> address \<Rightarrow> nat \<Rightarrow> nft_state \<Rightarrow> error + nft_state" where
  "erc721_transfer from to t s =
     bindE (ownerOf s t) (\<lambda>owner.
       if owner \<noteq> from then Inl NotOwner
       else if to = 0 then Inl InvalidReceiver
       else Inr (s\<lparr> owners := (owners s)(t := to),
                     tokenApprovals := (tokenApprovals s)(t := 0) \<rparr>))"

definition transferFrom :: "address \<Rightarrow> address \<Rightarrow> address \<Rightarrow> nat \<Rightarrow> nft_state \<Rightarrow> error + nft_state" where
  "transferFrom sender from to t s =
     bindE (isApprovedOrOwner s sender t) (\<lambda>ok.
       if \<not> ok then Inl NotApproved else erc721_transfer from to t s)"

definition approve :: "address \<Rightarrow> address \<Rightarrow> nat \<Rightarrow> nft_state \<Rightarrow> error + nft_state" where
  "approve sender to t s =
     bindE (ownerOf s t) (\<lambda>owner.
       if to = owner then Inl InvalidReceiver
       else if \<not> (sender = owner \<or> operatorApprovals s owner sender) then Inl NotApproved
       else Inr (s\<lparr> tokenApprovals := (tokenApprovals s)(t := to) \<rparr>))"

definition setApprovalForAll :: "address \<Rightarrow> address \<Rightarrow> bool \<Rightarrow> nft_state \<Rightarrow> error + nft_state" where
  "setApprovalForAll sender operator approved s =
     (if sender = operator then Inl InvalidReceiver
      else Inr (s\<lparr> operatorApprovals :=
             (operatorApprovals s)(sender := (operatorApprovals s sender)(operator := approved)) \<rparr>))"

section \<open>Marketplace and LicenseManager storage\<close>

record Order =
  orderId :: nat
  o_assetTokenId :: nat
  seller :: address
  buyer :: address
  o_price :: nat
  o_startTime :: nat
  o_endTime :: nat
  o_isActive :: bool
  isAuction :: bool
  highestBid :: nat
  highestBidder :: address

record Bid =
  bidder :: address
  amount :: nat
  b_timestamp :: nat

definition emptyOrder :: Order where
  "emptyOrder = \<lparr> orderId = 0, o_assetTokenId = 0, seller = 0, buyer = 0, o_price = 0,
     o_startTime = 0, o_endTime = 0, o_isActive = False, isAuction = False,
     highestBid = 0, highestBidder = 0 \<rparr>"

record mkt_state =
  mkt_owner :: address
  mkt_paused :: bool
  marketplaceFee :: nat
  orders :: "nat \<Rightarrow> Order"
  orderBids :: "nat \<Rightarrow> Bid list"
  userOrders :: "address \<Rightarrow> nat list"
  userBids :: "address \<Rightarrow> nat list"
  orderIdCounter :: nat

definition MAX_FEE :: nat where
  "MAX_FEE = 1000"

datatype LicenseType = COMMERCIAL | NON_COMMERCIAL | RESEARCH | CUSTOM

record License =
  licenseId :: nat
  l_assetTokenId :: nat
  licensor :: address
  licensee :: address
  licenseType :: LicenseType
  l_price :: nat
  duration :: nat
  l_startTime :: nat
  l_endTime :: nat
  l_isActive :: bool
  terms :: string
  l_createdAt :: nat

record UsageRecord =
  u_licenseId :: nat
  user :: address
  u_timestamp :: nat
  action :: string
  details :: string

definition emptyLicense :: License where
  "emptyLicense = \<lparr> licenseId = 0, l_assetTokenId = 0, licensor = 0, licensee = 0,
     licenseType = COMMERCIAL, l_price = 0, duration = 0, l_startTime = 0, l_endTime = 0,
     l_isActive = False, terms = [], l_createdAt = 0 \<rparr>"

record lic_state =
  lic_owner :: address
  lic_paused :: bool
  licenses :: "nat \<Rightarrow> License"
  licenseUsage :: "nat \<Rightarrow> UsageRecord list"
  userLicenses :: "address \<Rightarrow> nat list"
  userIssuedLicenses :: "address \<Rightarrow> nat list"
  assetLicensable :: "nat \<Rightarrow> bool"
  licenseIdCounter :: nat

text \<open>
  The whole ledger: the ether balance of every address, the addresses the three
  contracts are deployed at, and the storage of each.
\<close>

record world =
  balances :: ledger
  nftAddr :: address
  mktAddr :: address
  licAddr :: address
  nft :: nft_state
  mkt :: mkt_state
  lic :: lic_state

section \<open>AIAssetNFT operations\<close>

text \<open>
  \<open>mintAsset\<close>: the modifiers run first, in the order written (\<open>whenNotPaused\<close>, the
  asset type, which the datatype makes valid, then the royalty bound), then the three
  \<open>require\<close>s of the body. The token counter is the library's \<open>Counters.Counter\<close>,
  whose increment is unchecked.
\<close>

definition mintAsset ::
  "address \<Rightarrow> nat \<Rightarrow> AssetType \<Rightarrow> string \<Rightarrow> string \<Rightarrow> string \<Rightarrow> string \<Rightarrow> bool \<Rightarrow> nat \<Rightarrow> nat \<Rightarrow> bool
     \<Rightarrow> world \<Rightarrow> error + world" where
  "mintAsset sender now ty nm descr ver hash pub royalty pr forSale w =
     (let s = nft w in
      if nft_paused s then Inl Paused
      else if \<not> royalty \<le> 1000 then Inl InvalidRoyalty
      else if \<not> length hash > 0 then Inl InvalidInput
      else if usedIPFSHashes s hash then Inl DuplicateContent
      else if \<not> length nm > 0 then Inl InvalidInput
      else
        let t = tokenIdCounter s;
            s1 = s\<lparr> tokenIdCounter := (t + 1) mod 2 ^ 256 \<rparr>
        in bindE (safeMint sender t s1) (\<lambda>s2.
          let newAsset = \<lparr> tokenId = t, assetType = ty, name = nm, description = descr,
                version = ver, creator = sender, createdAt = now, updatedAt = now,
                ipfsHash = hash, isPublic = pub, royaltyPercentage = royalty,
                price = pr, isForSale = forSale \<rparr>
          in Inr (w\<lparr> nft := s2\<lparr>
               tokenURIs := (tokenURIs s2)(t := hash),
               assets := (assets s2)(t := newAsset),
               creatorAssets := (creatorAssets s2)(sender := creatorAssets s2 sender @ [t]),
               usedIPFSHashes := (usedIPFSHashes s2)(hash := True),
               assetVersions := (assetVersions s2)(t := assetVersions s2 t @
                 [\<lparr> v_version = ver, v_ipfsHash = hash, v_timestamp = now,
                    changelog = ''Initial version'' \<rparr>]) \<rparr> \<rparr>)))"

definition updateAsset ::
  "address \<Rightarrow> nat \<Rightarrow> nat \<Rightarrow> string \<Rightarrow> string \<Rightarrow> string \<Rightarrow> world \<Rightarrow> error + world" where
  "updateAsset sender now t newVersion newIPFSHash chlog w =
     (let s = nft w in
      bindE (ownerOf s t) (\<lambda>owner.
        if owner \<noteq> sender then Inl NotOwner
        else if nft_paused s then Inl Paused
        else if \<not> length newIPFSHash > 0 then Inl InvalidInput
        else if usedIPFSHashes s newIPFSHash then Inl DuplicateContent
        else if \<not> length newVersion > 0 then Inl InvalidInput
        else Inr (w\<lparr> nft := s\<lparr>
               assets := (assets s)(t := (assets s t)\<lparr> version := newVersion,
                 updatedAt := now, ipfsHash := newIPFSHash \<rparr>),
               tokenURIs := (tokenURIs s)(t := newIPFSHash),
               usedIPFSHashes := (usedIPFSHashes s)(newIPFSHash := True),
               assetVersions := (assetVersions s)(t := assetVersions s t @
                 [\<lparr> v_version = newVersion, v_ipfsHash = newIPFSHash, v_timestamp = now,
                    changelog = chlog \<rparr>]) \<rparr> \<rparr>)))"

definition updateAssetPrice ::
  "address \<Rightarrow> nat \<Rightarrow> nat \<Rightarrow> bool \<Rightarrow> world \<Rightarrow> error + world" where
  "updateAssetPrice sender t newPrice forSale w =
     (let s = nft w in
      bindE (ownerOf s t) (\<lambda>owner.
        if owner \<noteq> sender then Inl NotOwner
        else if nft_paused s then Inl Paused
        else Inr (w\<lparr> nft := s\<lparr>
               assets := (assets s)(t := (assets s t)\<lparr> price := newPrice,
                 isForSale := forSale \<rparr>) \<rparr> \<rparr>)))"

text \<open>
  \<open>buyAsset\<close>, the direct purchase: the token moves by the internal \<open>_transfer\<close>, the
  sale flag and the price are cleared, then the creator, the seller and (for the
  excess) the buyer are paid.
\<close>

definition buyAsset :: "address \<Rightarrow> nat \<Rightarrow> nat \<Rightarrow> world \<Rightarrow> error + world" where
  "buyAsset sender val t w =
     bindE (pay_in sender (nftAddr w) val (balances w)) (\<lambda>bal0.
       let s = nft w; asset = assets s t in
       if nft_paused s then Inl Paused
       else if \<not> isForSale asset then Inl NotForSale
       else if \<not> val \<ge> price asset then Inl InsufficientPayment
       else bindE (ownerOf s t) (\<lambda>owner.
         if \<not> owner \<noteq> sender then Inl SelfTrade
         else
           let slr = owner; salePrice = price asset in
           bindE (checked_mul salePrice (royaltyPercentage asset)) (\<lambda>prod.
           let royaltyAmount = prod div 10000 in
           bindE (checked_sub salePrice royaltyAmount) (\<lambda>sellerAmount.
           bindE (erc721_transfer slr sender t s) (\<lambda>s1.
           let s2 = s1\<lparr> assets := (assets s1)(t := (assets s1 t)\<lparr> isForSale := False,
                      price := 0 \<rparr>) \<rparr> in
           bindE (if royaltyAmount > 0
                  then transfer (nftAddr w) (creator asset) royaltyAmount bal0
                  else Inr bal0) (\<lambda>bal1.
           bindE (transfer (nftAddr w) slr sellerAmount bal1) (\<lambda>bal2.
           bindE (if val > salePrice
                  then transfer (nftAddr w) sender (val - salePrice) bal2
                  else Inr bal2) (\<lambda>bal3.
           Inr (w\<lparr> balances := bal3, nft := s2 \<rparr>)))))))))"

definition nft_pause :: "address \<Rightarrow> world \<Rightarrow> error + world" where
  "nft_pause sender w =
     (if sender \<noteq> nft_owner (nft w) then Inl NotAdmin
      else if nft_paused (nft w) then Inl Paused
      else Inr (w\<lparr> nft := (nft w)\<lparr> nft_paused := True \<rparr> \<rparr>))"

definition nft_unpause :: "address \<Rightarrow> world \<Rightarrow> error + world" where
  "nft_unpause sender w =
     (if sender \<noteq> nft_owner (nft w) then Inl NotAdmin
      else if \<not> nft_paused (nft w) then Inl Paused
      else Inr (w\<lparr> nft := (nft w)\<lparr> nft_paused := False \<rparr> \<rparr>))"

definition nft_withdraw :: "address \<Rightarrow> world \<Rightarrow> error + world" where
  "nft_withdraw sender w =
     (if sender \<noteq> nft_owner (nft w) then Inl NotAdmin
      else bindE (transfer (nftAddr w) (nft_owner (nft w)) (balances w (nftAddr w)) (balances w))
             (\<lambda>bal. Inr (w\<lparr> balances := bal \<rparr>)))"

text \<open>The inherited ERC721 entry points, as calls on the ledger.\<close>

definition nft_transferFrom :: "address \<Rightarrow> address \<Rightarrow> address \<Rightarrow> nat \<Rightarrow> world \<Rightarrow> error + world" where
  "nft_transferFrom sender from to t w =
     bindE (transferFrom sender from to t (nft w)) (\<lambda>s. Inr (w\<lparr> nft := s \<rparr>))"

definition nft_approve :: "address \<Rightarrow> address \<Rightarrow> nat \<Rightarrow> world \<Rightarrow> error + world" where
  "nft_approve sender to t w =
     bindE (approve sender to t (nft w)) (\<lambda>s. Inr (w\<lparr> nft := s \<rparr>))"

definition nft_setApprovalForAll :: "address \<Rightarrow> address \<Rightarrow> bool \<Rightarrow> world \<Rightarrow> error + world" where
  "nft_setApprovalForAll sender operator approved w =
     bindE (setApprovalForAll sender operator approved (nft w)) (\<lambda>s. Inr (w\<lparr> nft := s \<rparr>))"

definition getAsset :: "nft_state \<Rightarrow> nat \<Rightarrow> Asset" where
  "getAsset s t = assets s t"

section \<open>Marketplace operations\<close>

text \<open>
  The modifiers. \<open>validOrder\<close> takes an order to exist when its stored \<open>orderId\<close>
  is not zero; \<open>activeOrder\<close> wants the order active and the time not after its
  \<open>endTime\<close>.
\<close>

definition validOrder :: "mkt_state \<Rightarrow> nat \<Rightarrow> error + unit" where
  "validOrder m oid = (if \<not> orderId (orders m oid) \<noteq> 0 then Inl OrderNotFound else Inr ())"

definition activeOrder :: "mkt_state \<Rightarrow> nat \<Rightarrow> nat \<Rightarrow> error + unit" where
  "activeOrder m now oid =
     (if \<not> o_isActive (orders m oid) then Inl OrderInactive
      else if \<not> now \<le> o_endTime (orders m oid) then Inl OrderExpired
      else Inr ())"

definition onlyAssetOwner :: "world \<Rightarrow> address \<Rightarrow> nat \<Rightarrow> error + unit" where
  "onlyAssetOwner w sender t =
     bindE (ownerOf (nft w) t) (\<lambda>owner. if \<not> owner = sender then Inl NotOwner else Inr ())"

definition createFixedPriceOrder :: "address \<Rightarrow> nat \<Rightarrow> nat \<Rightarrow> nat \<Rightarrow> world \<Rightarrow> error + world" where
  "createFixedPriceOrder sender now t pr w =
     bindE (onlyAssetOwner w sender t) (\<lambda>_.
       let m = mkt w in
       if mkt_paused m then Inl Paused
       else if \<not> pr > 0 then Inl InvalidInput
       else
         let oid = orderIdCounter m in
         bindE (checked_add oid 1) (\<lambda>next.
           let newOrder = \<lparr> orderId = oid, o_assetTokenId = t, seller = sender, buyer = 0,
                 o_price = pr, o_startTime = now, o_endTime = 0, o_isActive = True,
                 isAuction = False, highestBid = 0, highestBidder = 0 \<rparr>
           in Inr (w\<lparr> mkt := m\<lparr> orderIdCounter := next,
                  orders := (orders m)(oid := newOrder),
                  userOrders := (userOrders m)(sender := userOrders m sender @ [oid]) \<rparr> \<rparr>)))"

definition createAuctionOrder ::
  "address \<Rightarrow> nat \<Rightarrow> nat \<Rightarrow> nat \<Rightarrow> nat \<Rightarrow> world \<Rightarrow> error + world" where
  "createAuctionOrder sender now t startingPrice dur w =
     bindE (onlyAssetOwner w sender t) (\<lambda>_.
       let m = mkt w in
       if mkt_paused m then Inl Paused
       else if \<not> startingPrice > 0 then Inl InvalidInput
       else if \<not> dur > 0 then Inl InvalidInput
       else
         let oid = orderIdCounter m in
         bindE (checked_add oid 1) (\<lambda>next.
         bindE (checked_add now dur) (\<lambda>endT.
           let newOrder = \<lparr> orderId = oid, o_assetTokenId = t, seller = sender, buyer = 0,
                 o_price = startingPrice, o_startTime = now, o_endTime = endT,
                 o_isActive = True, isAuction = True, highestBid = 0, highestBidder = 0 \<rparr>
           in Inr (w\<lparr> mkt := m\<lparr> orderIdCounter := next,
                  orders := (orders m)(oid := newOrder),
                  userOrders := (userOrders m)(sender := userOrders m sender @ [oid]) \<rparr> \<rparr>))))"

text \<open>
  The split of a sale price, as \<open>_executeSale\<close> computes it: two checked products, two
  integer divisions, two checked subtractions. The result is (fee, royalty, seller's
  amount).
\<close>

definition saleAmounts :: "nat \<Rightarrow> nat \<Rightarrow> nat \<Rightarrow> error + (nat \<times> nat \<times> nat)" where
  "saleAmounts pr feeBps royaltyBps =
     bindE (checked_mul pr feeBps) (\<lambda>feeProd.
     let marketplaceFeeAmount = feeProd div 10000 in
     bindE (checked_mul pr royaltyBps) (\<lambda>royaltyProd.
     let royaltyAmount = royaltyProd div 10000 in
     bindE (checked_sub pr marketplaceFeeAmount) (\<lambda>rest.
     bindE (checked_sub rest royaltyAmount) (\<lambda>sellerAmount.
     Inr (marketplaceFeeAmount, royaltyAmount, sellerAmount)))))"

text \<open>
  \<open>_executeSale\<close>: the token moves by the token contract's \<open>transferFrom\<close>, called by
  the marketplace (so the marketplace must be approved); the order gets its buyer and
  becomes inactive; the creator, the seller and the marketplace's owner are paid.
\<close>

definition executeSale :: "nat \<Rightarrow> address \<Rightarrow> nat \<Rightarrow> world \<Rightarrow> error + world" where
  "executeSale oid byr pr w =
     (let m = mkt w; order = orders m oid;
          asset = getAsset (nft w) (o_assetTokenId order) in
      bindE (saleAmounts pr (marketplaceFee m) (royaltyPercentage asset))
        (\<lambda>(marketplaceFeeAmount, royaltyAmount, sellerAmount).
      bindE (transferFrom (mktAddr w) (seller order) byr (o_assetTokenId order) (nft w)) (\<lambda>s1.
      let m1 = m\<lparr> orders := (orders m)(oid := order\<lparr> buyer := byr, o_isActive := False \<rparr>) \<rparr> in
      bindE (if royaltyAmount > 0
             then transfer (mktAddr w) (creator asset) royaltyAmount (balances w)
             else Inr (balances w)) (\<lambda>bal1.
      bindE (transfer (mktAddr w) (seller order) sellerAmount bal1) (\<lambda>bal2.
      bindE (if marketplaceFeeAmount > 0
             then transfer (mktAddr w) (mkt_owner m) marketplaceFeeAmount bal2
             else Inr bal2) (\<lambda>bal3.
      Inr (w\<lparr> balances := bal3, nft := s1, mkt := m1 \<rparr>)))))))"

definition buyFixedPriceOrder :: "address \<Rightarrow> nat \<Rightarrow> nat \<Rightarrow> nat \<Rightarrow> world \<Rightarrow> error + world" where
  "buyFixedPriceOrder sender val now oid w =
     bindE (pay_in sender (mktAddr w) val (balances w)) (\<lambda>bal0.
     bindE (validOrder (mkt w) oid) (\<lambda>_.
     bindE (activeOrder (mkt w) now oid) (\<lambda>_.
       let order = orders (mkt w) oid in
       if \<not> \<not> isAuction order then Inl WrongOrderKind
       else if \<not> val \<ge> o_price order then Inl InsufficientPayment
       else if \<not> seller order \<noteq> sender then Inl SelfTrade
       else executeSale oid sender (o_price order) (w\<lparr> balances := bal0 \<rparr>))))"

definition placeBid :: "address \<Rightarrow> nat \<Rightarrow> nat \<Rightarrow> nat \<Rightarrow> world \<Rightarrow> error + world" where
  "placeBid sender val now oid w =
     bindE (pay_in sender (mktAddr w) val (balances w)) (\<lambda>bal0.
     bindE (validOrder (mkt w) oid) (\<lambda>_.
     bindE (activeOrder (mkt w) now oid) (\<lambda>_.
       let m = mkt w; order = orders m oid in
       if \<not> isAuction order then Inl WrongOrderKind
       else if \<not> sender \<noteq> seller order then Inl SelfTrade
       else if \<not> val > highestBid order then Inl BidTooLow
       else if \<not> val \<ge> o_price order then Inl BidTooLow
       else
         bindE (if highestBidder order \<noteq> 0
                then transfer (mktAddr w) (highestBidder order) (highestBid order) bal0
                else Inr bal0) (\<lambda>bal1.
         let newBid = \<lparr> bidder = sender, amount = val, b_timestamp = now \<rparr> in
         Inr (w\<lparr> balances := bal1,
                mkt := m\<lparr> orders := (orders m)(oid := order\<lparr> highestBid := val,
                                 highestBidder := sender \<rparr>),
                          orderBids := (orderBids m)(oid := orderBids m oid @ [newBid]),
                          userBids := (userBids m)(sender := userBids m sender @ [oid]) \<rparr> \<rparr>)))))"

text \<open>
  The loop of \<open>withdrawBid\<close>: \<open>bidAmount\<close> starts at 0 and takes the amount of the first
  bid of the list whose bidder is the caller, where the loop breaks.
\<close>

fun findBid :: "Bid list \<Rightarrow> address \<Rightarrow> nat" where
  "findBid [] who = 0"
| "findBid (b # bs) who = (if bidder b = who then amount b else findBid bs who)"

definition withdrawBid :: "address \<Rightarrow> nat \<Rightarrow> world \<Rightarrow> error + world" where
  "withdrawBid sender oid w =
     bindE (validOrder (mkt w) oid) (\<lambda>_.
       let m = mkt w; order = orders m oid in
       if \<not> isAuction order then Inl WrongOrderKind
       else if \<not> highestBidder order \<noteq> sender then Inl IsHighestBidder
       else
         let bidAmount = findBid (orderBids m oid) sender in
         if \<not> bidAmount > 0 then Inl NoBidFound
         else bindE (transfer (mktAddr w) sender bidAmount (balances w)) (\<lambda>bal.
           Inr (w\<lparr> balances := bal \<rparr>)))"

definition endAuction :: "nat \<Rightarrow> nat \<Rightarrow> world \<Rightarrow> error + world" where
  "endAuction now oid w =
     bindE (validOrder (mkt w) oid) (\<lambda>_.
       let order = orders (mkt w) oid in
       if \<not> isAuction order then Inl WrongOrderKind
       else if \<not> now \<ge> o_endTime order then Inl NotExpired
       else if \<not> o_isActive order then Inl AlreadyEnded
       else if \<not> highestBidder order \<noteq> 0 then Inl NoBids
       else executeSale oid (highestBidder order) (highestBid order) w)"

definition cancelOrder :: "address \<Rightarrow> nat \<Rightarrow> world \<Rightarrow> error + world" where
  "cancelOrder sender oid w =
     bindE (validOrder (mkt w) oid) (\<lambda>_.
       let m = mkt w; order = orders m oid in
       if \<not> seller order = sender then Inl NotSeller
       else if \<not> o_isActive order then Inl OrderInactive
       else if \<not> buyer order = 0 then Inl AlreadySold
       else
         bindE (if isAuction order \<and> highestBidder order \<noteq> 0
                then transfer (mktAddr w) (highestBidder order) (highestBid order) (balances w)
                else Inr (balances w)) (\<lambda>bal.
         Inr (w\<lparr> balances := bal,
                mkt := m\<lparr> orders := (orders m)(oid := order\<lparr> o_isActive := False \<rparr>) \<rparr> \<rparr>)))"

definition setMarketplaceFee :: "address \<Rightarrow> nat \<Rightarrow> world \<Rightarrow> error + world" where
  "setMarketplaceFee sender newFee w =
     (if sender \<noteq> mkt_owner (mkt w) then Inl NotAdmin
      else if \<not> newFee \<le> MAX_FEE then Inl FeeTooHigh
      else Inr (w\<lparr> mkt := (mkt w)\<lparr> marketplaceFee := newFee \<rparr> \<rparr>))"

definition mkt_pause :: "address \<Rightarrow> world \<Rightarrow> error + world" where
  "mkt_pause sender w =
     (if sender \<noteq> mkt_owner (mkt w) then Inl NotAdmin
      else if mkt_paused (mkt w) then Inl Paused
      else Inr (w\<lparr> mkt := (mkt w)\<lparr> mkt_paused := True \<rparr> \<rparr>))"

definition mkt_unpause :: "address \<Rightarrow> world \<Rightarrow> error + world" where
  "mkt_unpause sender w =
     (if sender \<noteq> mkt_owner (mkt w) then Inl NotAdmin
      else if \<not> mkt_paused (mkt w) then Inl Paused
      else Inr (w\<lparr> mkt := (mkt w)\<lparr> mkt_paused := False \<rparr> \<rparr>))"

definition mkt_withdraw :: "address \<Rightarrow> world \<Rightarrow> error + world" where
  "mkt_withdraw sender w =
     (if sender \<noteq> mkt_owner (mkt w) then Inl NotAdmin
      else bindE (transfer (mktAddr w) (mkt_owner (mkt w)) (balances w (mktAddr w)) (balances w))
             (\<lambda>bal. Inr (w\<lparr> balances := bal \<rparr>)))"

section \<open>LicenseManager operations\<close>

definition validLicense :: "lic_state \<Rightarrow> nat \<Rightarrow> error + unit" where
  "validLicense l i = (if \<not> licenseId (licenses l i) \<noteq> 0 then Inl LicenseNotFound else Inr ())"

definition activeLicense :: "lic_state \<Rightarrow> nat \<Rightarrow> nat \<Rightarrow> error + unit" where
  "activeLicense l now i =
     (if \<not> l_isActive (licenses l i) then Inl LicenseInactive
      else if \<not> (l_endTime (licenses l i) = 0 \<or> now \<le> l_endTime (licenses l i))
        then Inl LicenseExpired
      else Inr ())"

text \<open>
  \<open>createLicense\<close>: the caller is recorded as the licensor, and both payments of the
  body, the price and the excess, go to \<open>msg.sender\<close>.
\<close>

definition createLicense ::
  "address \<Rightarrow> nat \<Rightarrow> nat \<Rightarrow> nat \<Rightarrow> address \<Rightarrow> LicenseType \<Rightarrow> nat \<Rightarrow> nat \<Rightarrow> string
     \<Rightarrow> world \<Rightarrow> error + world" where
  "createLicense sender val now t lcsee ty pr dur trms w =
     bindE (pay_in sender (licAddr w) val (balances w)) (\<lambda>bal0.
       let l = lic w in
       if lic_paused l then Inl Paused
       else if \<not> assetLicensable l t then Inl NotLicensable
       else if \<not> lcsee \<noteq> 0 then Inl InvalidLicensee
       else if \<not> lcsee \<noteq> sender then Inl InvalidLicensee
       else if \<not> val \<ge> pr then Inl InsufficientPayment
       else
         let lid = licenseIdCounter l in
         bindE (checked_add lid 1) (\<lambda>next.
         let startT = now in
         bindE (if dur > 0 then checked_add startT dur else Inr 0) (\<lambda>endT.
         let newLicense = \<lparr> licenseId = lid, l_assetTokenId = t, licensor = sender,
               licensee = lcsee, licenseType = ty, l_price = pr, duration = dur,
               l_startTime = startT, l_endTime = endT, l_isActive = True, terms = trms,
               l_createdAt = now \<rparr>;
             l1 = l\<lparr> licenseIdCounter := next,
                    licenses := (licenses l)(lid := newLicense),
                    userLicenses := (userLicenses l)(lcsee := userLicenses l lcsee @ [lid]),
                    userIssuedLicenses :=
                      (userIssuedLicenses l)(sender := userIssuedLicenses l sender @ [lid]) \<rparr>
         in
         bindE (if pr > 0 then transfer (licAddr w) sender pr bal0 else Inr bal0) (\<lambda>bal1.
         bindE (if val > pr then transfer (licAddr w) sender (val - pr) bal1 else Inr bal1)
           (\<lambda>bal2.
         Inr (w\<lparr> balances := bal2, lic := l1 \<rparr>))))))"

definition recordUsage :: "address \<Rightarrow> nat \<Rightarrow> nat \<Rightarrow> string \<Rightarrow> string \<Rightarrow> world \<Rightarrow> error + world" where
  "recordUsage sender now i act det w =
     (let l = lic w in
      bindE (validLicense l i) (\<lambda>_.
      bindE (activeLicense l now i) (\<lambda>_.
        if \<not> licensee (licenses l i) = sender then Inl NotLicensee
        else
          let usage = \<lparr> u_licenseId = i, user = sender, u_timestamp = now, action = act,
                details = det \<rparr>
          in Inr (w\<lparr> lic := l\<lparr> licenseUsage :=
                 (licenseUsage l)(i := licenseUsage l i @ [usage]) \<rparr> \<rparr>))))"

text \<open>
  The loop of \<open>hasValidLicense\<close> over the ids of \<open>userLicenses[user]\<close>: it returns true
  at the first license of the asset that is active and not past its end.
\<close>

fun hasValidLicenseLoop :: "(nat \<Rightarrow> License) \<Rightarrow> nat list \<Rightarrow> nat \<Rightarrow> nat \<Rightarrow> bool" where
  "hasValidLicenseLoop ls [] t now = False"
| "hasValidLicenseLoop ls (i # ids) t now =
     (let license = ls i in
      if l_assetTokenId license = t \<and> l_isActive license \<and>
         (l_endTime license = 0 \<or> now \<le> l_endTime license)
      then True
      else hasValidLicenseLoop ls ids t now)"

definition hasValidLicense :: "lic_state \<Rightarrow> nat \<Rightarrow> address \<Rightarrow> nat \<Rightarrow> bool" where
  "hasValidLicense l now usr t = hasValidLicenseLoop (licenses l) (userLicenses l usr) t now"

definition deactivateLicense :: "address \<Rightarrow> nat \<Rightarrow> world \<Rightarrow> error + world" where
  "deactivateLicense sender i w =
     (let l = lic w in
      bindE (validLicense l i) (\<lambda>_.
        if \<not> licensor (licenses l i) = sender then Inl NotLicensor
        else Inr (w\<lparr> lic := l\<lparr> licenses :=
               (licenses l)(i := (licenses l i)\<lparr> l_isActive := False \<rparr>) \<rparr> \<rparr>)))"

definition setAssetLicensability :: "address \<Rightarrow> nat \<Rightarrow> bool \<Rightarrow> world \<Rightarrow> error + world" where
  "setAssetLicensability sender t licensable w =
     (if sender \<noteq> lic_owner (lic w) then Inl NotAdmin
      else Inr (w\<lparr> lic := (lic w)\<lparr> assetLicensable :=
             (assetLicensable (lic w))(t := licensable) \<rparr> \<rparr>))"

fun batchLoop :: "nat list \<Rightarrow> bool list \<Rightarrow> (nat \<Rightarrow> bool) \<Rightarrow> (nat \<Rightarrow> bool)" where
  "batchLoop (t # ts) (b # bs) f = batchLoop ts bs (f(t := b))"
| "batchLoop _ _ f = f"

definition batchSetAssetLicensability ::
  "address \<Rightarrow> nat list \<Rightarrow> bool list \<Rightarrow> world \<Rightarrow> error + world" where
  "batchSetAssetLicensability sender ts bs w =
     (if sender \<noteq> lic_owner (lic w) then Inl NotAdmin
      else if \<not> length ts = length bs then Inl LengthMismatch
      else Inr (w\<lparr> lic := (lic w)\<lparr> assetLicensable :=
             batchLoop ts bs (assetLicensable (lic w)) \<rparr> \<rparr>))"

definition isLicenseExpired :: "lic_state \<Rightarrow> nat \<Rightarrow> nat \<Rightarrow> error + bool" where
  "isLicenseExpired l now i =
     bindE (validLicense l i) (\<lambda>_.
       let license = licenses l i in
       Inr (\<not> l_isActive license \<or> (l_endTime license > 0 \<and> now > l_endTime license)))"

definition lic_pause :: "address \<Rightarrow> world \<Rightarrow> error + world" where
  "lic_pause sender w =
     (if sender \<noteq> lic_owner (lic w) then Inl NotAdmin
      else if lic_paused (lic w) then Inl Paused
      else Inr (w\<lparr> lic := (lic w)\<lparr> lic_paused := True \<rparr> \<rparr>))"

definition lic_unpause :: "address \<Rightarrow> world \<Rightarrow> error + world" where
  "lic_unpause sender w =
     (if sender \<noteq> lic_owner (lic w) then Inl NotAdmin
      else if \<not> lic_paused (lic w) then Inl Paused
      else Inr (w\<lparr> lic := (lic w)\<lparr> lic_paused := False \<rparr> \<rparr>))"

definition lic_withdraw :: "address \<Rightarrow> world \<Rightarrow> error + world" where
  "lic_withdraw sender w =
     (if sender \<noteq> lic_owner (lic w) then Inl NotAdmin
      else bindE (transfer (licAddr w) (lic_owner (lic w)) (balances w (licAddr w)) (balances w))
             (\<lambda>bal. Inr (w\<lparr> balances := bal \<rparr>)))"

section \<open>Transactions and reachable states\<close>

text \<open>
  A transaction is one external call with its arguments. The payable ones carry
  \<open>msg.value\<close>. \<open>exec sender now c w\<close> runs the call \<open>c\<close> made by \<open>sender\<close> at time
  \<open>now\<close>.
\<close>

datatype call =
    MintAsset AssetType string string string string bool nat nat bool
  | UpdateAsset nat string string string
  | UpdateAssetPrice nat nat bool
  | BuyAsset nat nat
  | TransferFrom address address nat
  | Approve address nat
  | SetApprovalForAll address bool
  | NftPause | NftUnpause | NftWithdraw
  | CreateFixedPriceOrder nat nat
  | CreateAuctionOrder nat nat nat
  | BuyFixedPriceOrder nat nat
  | PlaceBid nat nat
  | WithdrawBid nat
  | EndAuction nat
  | CancelOrder nat
  | SetMarketplaceFee nat
  | MktPause | MktUnpause | MktWithdraw
  | CreateLicense nat nat address LicenseType nat nat string
  | RecordUsage nat string string
  | DeactivateLicense nat
  | SetAssetLicensability nat bool
  | BatchSetAssetLicensability "nat list" "bool list"
  | LicPause | LicUnpause | LicWithdraw

fun exec :: "address \<Rightarrow> nat \<Rightarrow> call \<Rightarrow> world \<Rightarrow> error + world" where
  "exec sender now (MintAsset ty nm descr ver hash pub royalty pr forSale) w =
     mintAsset sender now ty nm descr ver hash pub royalty pr forSale w"
| "exec sender now (UpdateAsset t ver hash chlog) w = updateAsset sender now t ver hash chlog w"
| "exec sender now (UpdateAssetPrice t pr forSale) w = updateAssetPrice sender t pr forSale w"
| "exec sender now (BuyAsset val t) w = buyAsset sender val t w"
| "exec sender now (TransferFrom from to t) w = nft_transferFrom sender from to t w"
| "exec sender now (Approve to t) w = nft_approve sender to t w"
| "exec sender now (SetApprovalForAll operator approved) w =
     nft_setApprovalForAll sender operator approved w"
| "exec sender now NftPause w = nft_pause sender w"
| "exec sender now NftUnpause w = nft_unpause sender w"
| "exec sender now NftWithdraw w = nft_withdraw sender w"
| "exec sender now (CreateFixedPriceOrder t pr) w = createFixedPriceOrder sender now t pr w"
| "exec sender now (CreateAuctionOrder t pr dur) w = createAuctionOrder sender now t pr dur w"
| "exec sender now (BuyFixedPriceOrder val oid) w = buyFixedPriceOrder sender val now oid w"
| "exec sender now (PlaceBid val oid) w = placeBid sender val now oid w"
| "exec sender now (WithdrawBid oid) w = withdrawBid sender oid w"
| "exec sender now (EndAuction oid) w = endAuction now oid w"
| "exec sender now (CancelOrder oid) w = cancelOrder sender oid w"
| "exec sender now (SetMarketplaceFee fee) w = setMarketplaceFee sender fee w"
| "exec sender now MktPause w = mkt_pause sender w"
| "exec sender now MktUnpause w = mkt_unpause sender w"
| "exec sender now MktWithdraw w = mkt_withdraw sender w"
| "exec sender now (CreateLicense val t lcsee ty pr dur trms) w =
     createLicense sender val now t lcsee ty pr dur trms w"
| "exec sender now (RecordUsage i act det) w = recordUsage sender now i act det w"
| "exec sender now (DeactivateLicense i) w = deactivateLicense sender i w"
| "exec sender now (SetAssetLicensability t b) w = setAssetLicensability sender t b w"
| "exec sender now (BatchSetAssetLicensability ts bs) w =
     batchSetAssetLicensability sender ts bs w"
| "exec sender now LicPause w = lic_pause sender w"
| "exec sender now LicUnpause w = lic_unpause sender w"
| "exec sender now LicWithdraw w = lic_withdraw sender w"

text \<open>
  The ledger right after deployment: \<open>deployer\<close> owns the three contracts, deployed at
  \<open>na\<close>, \<open>ma\<close> and \<open>la\<close>; the marketplace fee is 250 basis points; every mapping is
  empty and every counter is 0.
\<close>

definition deploy :: "address \<Rightarrow> address \<Rightarrow> address \<Rightarrow> address \<Rightarrow> ledger \<Rightarrow> world" where
  "deploy deployer na ma la bal =
     \<lparr> balances = bal, nftAddr = na, mktAddr = ma, licAddr = la,
       nft = \<lparr> nft_owner = deployer, nft_paused = False, tokenIdCounter = 0,
               owners = (\<lambda>_. 0), tokenApprovals = (\<lambda>_. 0),
               operatorApprovals = (\<lambda>_ _. False), tokenURIs = (\<lambda>_. []),
               assets = (\<lambda>_. emptyAsset), assetVersions = (\<lambda>_. []),
               creatorAssets = (\<lambda>_. []), usedIPFSHashes = (\<lambda>_. False) \<rparr>,
       mkt = \<lparr> mkt_owner = deployer, mkt_paused = False, marketplaceFee = 250,
               orders = (\<lambda>_. emptyOrder), orderBids = (\<lambda>_. []), userOrders = (\<lambda>_. []),
               userBids = (\<lambda>_. []), orderIdCounter = 0 \<rparr>,
       lic = \<lparr> lic_owner = deployer, lic_paused = False, licenses = (\<lambda>_. emptyLicense),
               licenseUsage = (\<lambda>_. []), userLicenses = (\<lambda>_. []),
               userIssuedLicenses = (\<lambda>_. []), assetLicensable = (\<lambda>_. False),
               licenseIdCounter = 0 \<rparr> \<rparr>"

inductive reachable :: "world \<Rightarrow> bool" where
  reachable_deploy: "reachable (deploy deployer na ma la bal)"
| reachable_exec: "reachable w \<Longrightarrow> exec sender now c w = Inr w' \<Longrightarrow> reachable w'"

text \<open>A run of transactions, each with its sender and its time, stopping at the first error.\<close>

fun run :: "(address \<times> nat \<times> call) list \<Rightarrow> world \<Rightarrow> error + world" where
  "run [] w = Inr w"
| "run ((sender, now, c) # cs) w = bindE (exec sender now c w) (run cs)"

section \<open>Invariants\<close>

text \<open>
  Predicates used in the proofs. \<open>same_history\<close> relates two ledgers with the same
  version histories and the same set of used content hashes. \<open>history_inv\<close>: every hash
  of every recorded version is marked used, and is not empty. \<open>lic_inv\<close>: the list
  \<open>userLicenses[u]\<close> holds exactly the ids of the licences created for the licensee
  \<open>u\<close>.
\<close>

definition same_history :: "world \<Rightarrow> world \<Rightarrow> bool" where
  "same_history w w' \<longleftrightarrow>
     assetVersions (nft w') = assetVersions (nft w) \<and>
     usedIPFSHashes (nft w') = usedIPFSHashes (nft w)"

definition history_inv :: "world \<Rightarrow> bool" where
  "history_inv w \<longleftrightarrow>
     (\<forall>t v. v \<in> set (assetVersions (nft w) t) \<longrightarrow>
        usedIPFSHashes (nft w) (v_ipfsHash v) \<and> 0 < length (v_ipfsHash v))"

definition lic_inv :: "lic_state \<Rightarrow> bool" where
  "lic_inv l \<longleftrightarrow>
     (\<forall>u. set (userLicenses l u) = {i. i < licenseIdCounter l \<and> licensee (licenses l i) = u})"

section \<open>Example ledgers\<close>

text \<open>
  A small ledger to run the operations on. Account 1 deploys the contracts at 100, 101
  and 102; account 2 mints three assets, adds a version to the first, approves the
  marketplace and lists the assets (two auctions, which get the order ids 0 and 1, and
  a fixed-price order, which gets 2); accounts 2, 3, 4 and 5 hold 1000 each.
\<close>

definition genesis :: world where
  "genesis = deploy 1 100 101 102 ((\<lambda>_. 0)(2 := 1000, 3 := 1000, 4 := 1000, 5 := 1000))"

definition listing_calls :: "(address \<times> nat \<times> call) list" where
  "listing_calls =
     [(2, 10, MintAsset MODEL ''m0'' [] ''1'' ''h0'' True 250 100 True),
      (2, 10, MintAsset SCRIPT ''m1'' [] ''1'' ''h1'' True 250 100 True),
      (2, 10, MintAsset DATASET ''m2'' [] ''1'' ''h2'' True 250 100 True),
      (2, 11, UpdateAsset 0 ''2'' ''h0b'' ''retrained''),
      (2, 11, SetApprovalForAll 101 True),
      (2, 12, CreateAuctionOrder 0 100 50),
      (2, 12, CreateAuctionOrder 1 100 50),
      (2, 12, CreateFixedPriceOrder 2 100)]"

definition listed :: world where
  "listed = projr (run listing_calls genesis)"

definition auction_open :: world where
  "auction_open = projr (run [(3, 20, PlaceBid 100 1), (4, 21, PlaceBid 150 1)] listed)"

definition auction_settled :: world where
  "auction_settled = projr (endAuction 62 1 auction_open)"

text \<open>
  Two more courses of the auction of order 1: one in which accounts 3 and 4 outbid each
  other twice, and one in which account 4 answers the bid of 100 with 350.
\<close>

definition auction_contested :: world where
  "auction_contested =
     projr (run [(3, 20, PlaceBid 100 1), (4, 21, PlaceBid 150 1),
                 (3, 22, PlaceBid 200 1), (4, 23, PlaceBid 250 1)] listed)"

definition auction_raised :: world where
  "auction_raised = projr (run [(3, 20, PlaceBid 100 1), (4, 21, PlaceBid 350 1)] listed)"

text \<open>
  Licences: the administrator makes asset 0 licensable; account 2 then grants account 3
  a licence of 100 seconds for the price 10 (sending 25), and account 4 a free perpetual
  one.
\<close>

definition licensable :: world where
  "licensable = projr (setAssetLicensability 1 0 True listed)"

definition licensed :: world where
  "licensed =
     projr (run [(2, 30, CreateLicense 25 0 3 RESEARCH 10 100 ''research use''),
                 (2, 31, CreateLicense 0 0 4 COMMERCIAL 0 0 [])] licensable)"

section \<open>Basic facts\<close>

lemmas scenario_defs = genesis_def listing_calls_def listed_def auction_open_def
  auction_settled_def auction_contested_def auction_raised_def licensable_def licensed_def

lemmas model_defs = mintAsset_def updateAsset_def updateAssetPrice_def buyAsset_def
  nft_setApprovalForAll_def setApprovalForAll_def nft_approve_def approve_def
  nft_transferFrom_def
  createAuctionOrder_def createFixedPriceOrder_def buyFixedPriceOrder_def
  placeBid_def withdrawBid_def endAuction_def cancelOrder_def executeSale_def saleAmounts_def
  createLicense_def deactivateLicense_def setAssetLicensability_def hasValidLicense_def
  validLicense_def activeLicense_def recordUsage_def
  checked_add_def checked_mul_def checked_sub_def MAX_UINT256_def pay_in_def transfer_def
  safeMint_def ownerOf_def onlyAssetOwner_def validOrder_def activeOrder_def transferFrom_def
  isApprovedOrOwner_def erc721_transfer_def getAsset_def deploy_def emptyAsset_def
  emptyOrder_def emptyLicense_def Let_def

lemma bindE_Inl [simp]: "bindE (Inl e) f = Inl e"
  by (simp add: bindE_def)

lemma bindE_Inr [simp]: "bindE (Inr x) f = f x"
  by (simp add: bindE_def)

lemma bindE_eq_Inr: "bindE r f = Inr y \<longleftrightarrow> (\<exists>x. r = Inr x \<and> f x = Inr y)"
  by (cases r) simp_all

lemma bps_share_le:
  fixes p :: nat
  assumes "f \<le> 1000"
  shows "p * f div 10000 \<le> p div 10"
proof -
  have "p * f \<le> p * 1000"
    using assms by simp
  then have "p * f div 10000 \<le> p * 1000 div 10000"
    by (rule div_le_mono)
  also have "p * 1000 div 10000 = p div 10"
    by simp
  finally show ?thesis .
qed

lemma bps_shares_le:
  fixes p :: nat
  assumes "f \<le> 1000" "r \<le> 1000"
  shows "p * f div 10000 + p * r div 10000 \<le> p"
proof -
  have "p * f div 10000 \<le> p div 10" "p * r div 10000 \<le> p div 10"
    using assms by (simp_all add: bps_share_le)
  then show ?thesis by linarith
qed

lemma saleAmounts_eq:
  assumes "feeBps \<le> 1000" "royaltyBps \<le> 1000"
  shows "saleAmounts p feeBps royaltyBps =
     (if p * feeBps \<le> MAX_UINT256 \<and> p * royaltyBps \<le> MAX_UINT256
      then Inr (p * feeBps div 10000, p * royaltyBps div 10000,
                p - p * feeBps div 10000 - p * royaltyBps div 10000)
      else Inl Panic)"
  using bps_shares_le [OF assms, of p]
  by (auto simp: saleAmounts_def checked_mul_def checked_sub_def Let_def)

lemma transfer_Inr:
  "transfer this to v bal = Inr bal' \<longleftrightarrow>
     v \<le> bal this \<and> bal' = (bal(this := bal this - v))(to := (bal(this := bal this - v)) to + v)"
  by (auto simp: transfer_def Let_def)

lemma transfer_self_balance:
  assumes "transfer this to v bal = Inr bal'" "to \<noteq> this"
  shows "bal' this + v = bal this"
  using assms by (auto simp: transfer_Inr)

lemma executeSale_payout:
  assumes "executeSale oid byr p w = Inr w'"
  obtains fee royalty sellerAmount s1 bal1 bal2 where
    "saleAmounts p (marketplaceFee (mkt w))
        (royaltyPercentage (getAsset (nft w) (o_assetTokenId (orders (mkt w) oid))))
       = Inr (fee, royalty, sellerAmount)"
    "transferFrom (mktAddr w) (seller (orders (mkt w) oid)) byr
        (o_assetTokenId (orders (mkt w) oid)) (nft w) = Inr s1"
    "(if 0 < royalty
      then transfer (mktAddr w)
             (creator (getAsset (nft w) (o_assetTokenId (orders (mkt w) oid)))) royalty (balances w)
      else Inr (balances w)) = Inr bal1"
    "transfer (mktAddr w) (seller (orders (mkt w) oid)) sellerAmount bal1 = Inr bal2"
    "(if 0 < fee then transfer (mktAddr w) (mkt_owner (mkt w)) fee bal2 else Inr bal2)
       = Inr (balances w')"
    "nft w' = s1"
    "mkt w' = (mkt w)\<lparr> orders := (orders (mkt w))(oid := (orders (mkt w) oid)
                 \<lparr> buyer := byr, o_isActive := False \<rparr>) \<rparr>"
    "lic w' = lic w" "mktAddr w' = mktAddr w" "nftAddr w' = nftAddr w" "licAddr w' = licAddr w"
proof -
  let ?a = "getAsset (nft w) (o_assetTokenId (orders (mkt w) oid))"
  let ?o = "orders (mkt w) oid"
  from assms have "bindE (saleAmounts p (marketplaceFee (mkt w)) (royaltyPercentage ?a))
      (\<lambda>(marketplaceFeeAmount, royaltyAmount, sellerAmount).
      bindE (transferFrom (mktAddr w) (seller ?o) byr (o_assetTokenId ?o) (nft w)) (\<lambda>s1.
      bindE (if royaltyAmount > 0
             then transfer (mktAddr w) (creator ?a) royaltyAmount (balances w)
             else Inr (balances w)) (\<lambda>bal1.
      bindE (transfer (mktAddr w) (seller ?o) sellerAmount bal1) (\<lambda>bal2.
      bindE (if marketplaceFeeAmount > 0
             then transfer (mktAddr w) (mkt_owner (mkt w)) marketplaceFeeAmount bal2
             else Inr bal2) (\<lambda>bal3.
      Inr (w\<lparr> balances := bal3, nft := s1,
             mkt := (mkt w)\<lparr> orders := (orders (mkt w))(oid := ?o
                 \<lparr> buyer := byr, o_isActive := False \<rparr>) \<rparr> \<rparr>)))))) = Inr w'"
    by (simp only: executeSale_def Let_def)
  then obtain amts where
    a: "saleAmounts p (marketplaceFee (mkt w)) (royaltyPercentage ?a) = Inr amts"
    and r1: "(case amts of (marketplaceFeeAmount, royaltyAmount, sellerAmount) \<Rightarrow>
      bindE (transferFrom (mktAddr w) (seller ?o) byr (o_assetTokenId ?o) (nft w)) (\<lambda>s1.
      bindE (if royaltyAmount > 0
             then transfer (mktAddr w) (creator ?a) royaltyAmount (balances w)
             else Inr (balances w)) (\<lambda>bal1.
      bindE (transfer (mktAddr w) (seller ?o) sellerAmount bal1) (\<lambda>bal2.
      bindE (if marketplaceFeeAmount > 0
             then transfer (mktAddr w) (mkt_owner (mkt w)) marketplaceFeeAmount bal2
             else Inr bal2) (\<lambda>bal3.
      Inr (w\<lparr> balances := bal3, nft := s1,
             mkt := (mkt w)\<lparr> orders := (orders (mkt w))(oid := ?o
                 \<lparr> buyer := byr, o_isActive := False \<rparr>) \<rparr> \<rparr>)))))) = Inr w'"
    unfolding bindE_eq_Inr [of "saleAmounts p (marketplaceFee (mkt w)) (royaltyPercentage ?a)"]
    by blast
  obtain fee royalty sellerAmount where amts: "amts = (fee, royalty, sellerAmount)"
    by (cases amts) auto
  from r1 obtain s1 bal1 bal2 bal3 where
    t: "transferFrom (mktAddr w) (seller ?o) byr (o_assetTokenId ?o) (nft w) = Inr s1"
    and p1: "(if 0 < royalty then transfer (mktAddr w) (creator ?a) royalty (balances w)
              else Inr (balances w)) = Inr bal1"
    and p2: "transfer (mktAddr w) (seller ?o) sellerAmount bal1 = Inr bal2"
    and p3: "(if 0 < fee then transfer (mktAddr w) (mkt_owner (mkt w)) fee bal2
              else Inr bal2) = Inr bal3"
    and w': "w' = w\<lparr> balances := bal3, nft := s1,
             mkt := (mkt w)\<lparr> orders := (orders (mkt w))(oid := ?o
                 \<lparr> buyer := byr, o_isActive := False \<rparr>) \<rparr> \<rparr>"
    unfolding amts prod.case bindE_eq_Inr by blast
  show thesis
  proof (rule that [of fee royalty sellerAmount s1 bal1 bal2])
    show "saleAmounts p (marketplaceFee (mkt w)) (royaltyPercentage ?a)
            = Inr (fee, royalty, sellerAmount)"
      using a amts by simp
    show "(if 0 < fee then transfer (mktAddr w) (mkt_owner (mkt w)) fee bal2 else Inr bal2)
            = Inr (balances w')"
      using p3 w' by simp
  qed (use t p1 p2 w' in simp_all)
qed

lemma pay_in_Inr:
  "pay_in sender this v bal = Inr bal' \<longleftrightarrow>
     v \<le> bal sender \<and>
     bal' = (bal(sender := bal sender - v))(this := (bal(sender := bal sender - v)) this + v)"
  by (auto simp: pay_in_def Let_def)

lemma placeBid_Inr:
  assumes "placeBid sender val now oid w = Inr w'"
  obtains bal0 bal1 where
    "pay_in sender (mktAddr w) val (balances w) = Inr bal0"
    "orderId (orders (mkt w) oid) \<noteq> 0"
    "o_isActive (orders (mkt w) oid)"
    "now \<le> o_endTime (orders (mkt w) oid)"
    "isAuction (orders (mkt w) oid)"
    "sender \<noteq> seller (orders (mkt w) oid)"
    "highestBid (orders (mkt w) oid) < val"
    "o_price (orders (mkt w) oid) \<le> val"
    "(if highestBidder (orders (mkt w) oid) \<noteq> 0
      then transfer (mktAddr w) (highestBidder (orders (mkt w) oid))
             (highestBid (orders (mkt w) oid)) bal0
      else Inr bal0) = Inr bal1"
    "w' = w\<lparr> balances := bal1,
            mkt := (mkt w)\<lparr> orders := (orders (mkt w))(oid := (orders (mkt w) oid)
                       \<lparr> highestBid := val, highestBidder := sender \<rparr>),
                     orderBids := (orderBids (mkt w))(oid := orderBids (mkt w) oid @
                       [\<lparr> bidder = sender, amount = val, b_timestamp = now \<rparr>]),
                     userBids := (userBids (mkt w))(sender := userBids (mkt w) sender @ [oid]) \<rparr> \<rparr>"
  using assms
  by (auto simp: placeBid_def validOrder_def activeOrder_def Let_def bindE_eq_Inr
      split: if_splits)

lemma placeBid_effect:
  assumes bid: "placeBid sender val now oid w = Inr w'"
  shows "highestBid (orders (mkt w) oid) < highestBid (orders (mkt w') oid) \<and>
         highestBid (orders (mkt w') oid) = val \<and>
         o_price (orders (mkt w') oid) \<le> val \<and>
         highestBidder (orders (mkt w') oid) = sender \<and>
         orderBids (mkt w') oid = orderBids (mkt w) oid @
           [\<lparr> bidder = sender, amount = val, b_timestamp = now \<rparr>] \<and>
         (highestBidder (orders (mkt w) oid) \<noteq> 0 \<and>
          highestBidder (orders (mkt w) oid) \<noteq> mktAddr w \<longrightarrow>
            balances w' (highestBidder (orders (mkt w) oid)) =
              balances w (highestBidder (orders (mkt w) oid))
                - (if highestBidder (orders (mkt w) oid) = sender then val else 0)
                + highestBid (orders (mkt w) oid))"
  using bid
  by (rule placeBid_Inr) (auto simp: pay_in_Inr transfer_Inr split: if_splits)

lemma round_trip:
  assumes "pay_in sender this val bal = Inr bal0" and "pr \<le> val"
    and "(if 0 < pr then transfer this sender pr bal0 else Inr bal0) = Inr bal1"
    and "(if pr < val then transfer this sender (val - pr) bal1 else Inr bal1) = Inr bal2"
  shows "bal2 = bal"
proof (rule ext)
  fix a
  show "bal2 a = bal a"
    using assms
    by (cases "sender = this"; cases "a = sender"; cases "a = this")
       (auto simp: pay_in_Inr transfer_Inr split: if_split_asm)
qed

lemma bindE_InrE:
  assumes "bindE r f = Inr y"
  obtains x where "r = Inr x" and "f x = Inr y"
  using assms by (cases r) simp_all

lemma guard_InrE:
  assumes "(if c then Inl e else r) = Inr y"
  obtains "\<not> c" and "r = Inr y"
  using assms by (cases c) simp_all

lemma createLicense_Inr:
  assumes "createLicense sender val now t lcsee ty pr dur trms w = Inr w'"
  shows "\<exists>bal0 bal1 endT.
    pay_in sender (licAddr w) val (balances w) = Inr bal0 \<and>
    (if 0 < pr then transfer (licAddr w) sender pr bal0 else Inr bal0) = Inr bal1 \<and>
    (if pr < val then transfer (licAddr w) sender (val - pr) bal1 else Inr bal1)
       = Inr (balances w') \<and>
    lcsee \<noteq> sender \<and> pr \<le> val \<and>
    licenses (lic w') = (licenses (lic w))(licenseIdCounter (lic w) :=
       \<lparr> licenseId = licenseIdCounter (lic w), l_assetTokenId = t, licensor = sender,
         licensee = lcsee, licenseType = ty, l_price = pr, duration = dur,
         l_startTime = now, l_endTime = endT, l_isActive = True, terms = trms,
         l_createdAt = now \<rparr>)"
  using assms unfolding createLicense_def Let_def
  apply (elim bindE_InrE guard_InrE)
  apply (intro exI conjI)
       apply assumption
      apply assumption
     apply auto
  done

lemma findBid_filter:
  "findBid bs who =
     (case filter (\<lambda>b. bidder b = who) bs of [] \<Rightarrow> 0 | b # _ \<Rightarrow> amount b)"
  by (induction bs) auto

lemma withdrawBid_Inr:
  "withdrawBid sender oid w = Inr w' \<longleftrightarrow>
     orderId (orders (mkt w) oid) \<noteq> 0 \<and> isAuction (orders (mkt w) oid) \<and>
     highestBidder (orders (mkt w) oid) \<noteq> sender \<and>
     0 < findBid (orderBids (mkt w) oid) sender \<and>
     findBid (orderBids (mkt w) oid) sender \<le> balances w (mktAddr w) \<and>
     w' = w\<lparr> balances :=
            ((balances w)(mktAddr w := balances w (mktAddr w)
                 - findBid (orderBids (mkt w) oid) sender))
              (sender := ((balances w)(mktAddr w := balances w (mktAddr w)
                 - findBid (orderBids (mkt w) oid) sender)) sender
                 + findBid (orderBids (mkt w) oid) sender) \<rparr>"
  by (auto simp: withdrawBid_def validOrder_def transfer_Inr Let_def bindE_eq_Inr
      split: if_splits)

lemma findBid_append:
  "findBid (bs @ cs) who = (if 0 < findBid bs who then findBid bs who
       else if \<exists>b \<in> set bs. bidder b = who then 0 else findBid cs who)"
  by (induction bs) auto

lemma findBid_none: "\<forall>b \<in> set bs. bidder b \<noteq> who \<Longrightarrow> findBid bs who = 0"
  by (induction bs) auto

lemma validOrder_Inr: "validOrder m oid = Inr u \<longleftrightarrow> orderId (orders m oid) \<noteq> 0"
  by (simp add: validOrder_def)

lemma activeOrder_Inr:
  "activeOrder m now oid = Inr u \<longleftrightarrow>
     o_isActive (orders m oid) \<and> now \<le> o_endTime (orders m oid)"
  by (simp add: activeOrder_def)

lemma onlyAssetOwner_Inr:
  "onlyAssetOwner w sender t = Inr u \<longleftrightarrow> ownerOf (nft w) t = Inr sender"
  by (auto simp: onlyAssetOwner_def ownerOf_def)

lemmas guards_Inr = validOrder_Inr activeOrder_Inr onlyAssetOwner_Inr not_not

lemma executeSale_closes:
  assumes "executeSale oid byr p w = Inr w'" and "orderId (orders (mkt w) oid) \<noteq> 0"
  shows "orderId (orders (mkt w') oid) \<noteq> 0 \<and> \<not> o_isActive (orders (mkt w') oid)"
  using assms(1) by (rule executeSale_payout) (use assms(2) in simp)

lemma buyFixedPriceOrder_closes:
  assumes "buyFixedPriceOrder sender val now oid w = Inr w'"
  shows "orderId (orders (mkt w') oid) \<noteq> 0 \<and> \<not> o_isActive (orders (mkt w') oid)"
  using assms unfolding buyFixedPriceOrder_def Let_def
  apply (elim bindE_InrE guard_InrE)
  apply (simp only: guards_Inr)
  apply (erule executeSale_closes)
  apply simp
  done

lemma endAuction_closes:
  assumes "endAuction now oid w = Inr w'"
  shows "orderId (orders (mkt w') oid) \<noteq> 0 \<and> \<not> o_isActive (orders (mkt w') oid)"
  using assms unfolding endAuction_def Let_def
  apply (elim bindE_InrE guard_InrE)
  apply (simp only: guards_Inr)
  apply (erule executeSale_closes)
  apply simp
  done

lemma cancelOrder_closes:
  assumes "cancelOrder sender oid w = Inr w'"
  shows "orderId (orders (mkt w') oid) \<noteq> 0 \<and> \<not> o_isActive (orders (mkt w') oid)"
  using assms unfolding cancelOrder_def Let_def
  apply (elim bindE_InrE guard_InrE)
  apply (simp only: guards_Inr)
  apply auto
  done

lemma closed_order_calls:
  assumes "orderId (orders (mkt w) oid) \<noteq> 0" and "\<not> o_isActive (orders (mkt w) oid)"
  shows "(val \<le> balances w sender \<longrightarrow>
            buyFixedPriceOrder sender val now oid w = Inl OrderInactive) \<and>
         cancelOrder sender oid w =
            Inl (if seller (orders (mkt w) oid) = sender then OrderInactive else NotSeller) \<and>
         endAuction now oid w =
            Inl (if \<not> isAuction (orders (mkt w) oid) then WrongOrderKind
                 else if now < o_endTime (orders (mkt w) oid) then NotExpired
                 else AlreadyEnded)"
  using assms
  by (simp add: buyFixedPriceOrder_def endAuction_def cancelOrder_def validOrder_def
      activeOrder_def pay_in_def Let_def)

subsection \<open>What each call leaves alone\<close>

lemma transferFrom_assets:
  assumes "transferFrom sender from to t s = Inr s'"
  shows "assets s' = assets s \<and> assetVersions s' = assetVersions s \<and>
         usedIPFSHashes s' = usedIPFSHashes s \<and> owners s' = (owners s)(t := to)"
  using assms
  by (auto simp: transferFrom_def isApprovedOrOwner_def erc721_transfer_def ownerOf_def
      bindE_eq_Inr split: if_splits)

lemma executeSale_frame:
  assumes "executeSale oid byr p w = Inr w'"
  shows "lic w' = lic w \<and> same_history w w' \<and> assets (nft w') = assets (nft w)"
  using assms
  by (rule executeSale_payout) (auto simp: same_history_def dest: transferFrom_assets)

lemma nft_calls_frame:
  "mintAsset sender now ty nm descr ver hash pub royalty pr forSale w = Inr w' \<Longrightarrow> lic w' = lic w"
  "updateAsset sender now t ver hash chlog w = Inr w' \<Longrightarrow> lic w' = lic w"
  "updateAssetPrice sender t pr forSale w = Inr w' \<Longrightarrow> lic w' = lic w \<and> same_history w w'"
  "buyAsset sender val t w = Inr w' \<Longrightarrow> lic w' = lic w \<and> same_history w w'"
  "nft_transferFrom sender from to t w = Inr w' \<Longrightarrow> lic w' = lic w \<and> same_history w w'"
  "nft_approve sender to t w = Inr w' \<Longrightarrow> lic w' = lic w \<and> same_history w w'"
  "nft_setApprovalForAll sender operator approved w = Inr w' \<Longrightarrow> lic w' = lic w \<and> same_history w w'"
  "nft_pause sender w = Inr w' \<Longrightarrow> lic w' = lic w \<and> same_history w w'"
  "nft_unpause sender w = Inr w' \<Longrightarrow> lic w' = lic w \<and> same_history w w'"
  "nft_withdraw sender w = Inr w' \<Longrightarrow> lic w' = lic w \<and> same_history w w'"
  by (auto simp: mintAsset_def updateAsset_def updateAssetPrice_def buyAsset_def
      nft_transferFrom_def nft_approve_def nft_setApprovalForAll_def nft_pause_def
      nft_unpause_def nft_withdraw_def transferFrom_def isApprovedOrOwner_def
      erc721_transfer_def approve_def setApprovalForAll_def safeMint_def ownerOf_def
      same_history_def Let_def bindE_eq_Inr split: if_splits)

lemma mkt_calls_frame:
  "createFixedPriceOrder sender now t pr w = Inr w' \<Longrightarrow> lic w' = lic w \<and> same_history w w'"
  "createAuctionOrder sender now t pr dur w = Inr w' \<Longrightarrow> lic w' = lic w \<and> same_history w w'"
  "buyFixedPriceOrder sender val now oid w = Inr w' \<Longrightarrow> lic w' = lic w \<and> same_history w w'"
  "placeBid sender val now oid w = Inr w' \<Longrightarrow> lic w' = lic w \<and> same_history w w'"
  "withdrawBid sender oid w = Inr w' \<Longrightarrow> lic w' = lic w \<and> same_history w w'"
  "endAuction now oid w = Inr w' \<Longrightarrow> lic w' = lic w \<and> same_history w w'"
  "cancelOrder sender oid w = Inr w' \<Longrightarrow> lic w' = lic w \<and> same_history w w'"
  "setMarketplaceFee sender fee w = Inr w' \<Longrightarrow> lic w' = lic w \<and> same_history w w'"
  "mkt_pause sender w = Inr w' \<Longrightarrow> lic w' = lic w \<and> same_history w w'"
  "mkt_unpause sender w = Inr w' \<Longrightarrow> lic w' = lic w \<and> same_history w w'"
  "mkt_withdraw sender w = Inr w' \<Longrightarrow> lic w' = lic w \<and> same_history w w'"
  by (auto simp: createFixedPriceOrder_def createAuctionOrder_def buyFixedPriceOrder_def
      placeBid_def withdrawBid_def endAuction_def cancelOrder_def setMarketplaceFee_def
      mkt_pause_def mkt_unpause_def mkt_withdraw_def onlyAssetOwner_def validOrder_def
      activeOrder_def same_history_def Let_def bindE_eq_Inr
      split: if_splits dest!: executeSale_frame)

lemma lic_calls_frame:
  "createLicense sender val now t lcsee ty pr dur trms w = Inr w' \<Longrightarrow> same_history w w'"
  "recordUsage sender now i act det w = Inr w' \<Longrightarrow> same_history w w'"
  "deactivateLicense sender i w = Inr w' \<Longrightarrow> same_history w w'"
  "setAssetLicensability sender t b w = Inr w' \<Longrightarrow> same_history w w'"
  "batchSetAssetLicensability sender ts bs w = Inr w' \<Longrightarrow> same_history w w'"
  "lic_pause sender w = Inr w' \<Longrightarrow> same_history w w'"
  "lic_unpause sender w = Inr w' \<Longrightarrow> same_history w w'"
  "lic_withdraw sender w = Inr w' \<Longrightarrow> same_history w w'"
  by (auto simp: createLicense_def recordUsage_def deactivateLicense_def
      setAssetLicensability_def batchSetAssetLicensability_def lic_pause_def lic_unpause_def
      lic_withdraw_def validLicense_def activeLicense_def same_history_def Let_def bindE_eq_Inr
      split: if_splits)

subsection \<open>The version history and the set of used hashes\<close>

lemma history_inv_same: "same_history w w' \<Longrightarrow> history_inv w \<Longrightarrow> history_inv w'"
  by (simp add: same_history_def history_inv_def)

lemma history_inv_deploy: "history_inv (deploy deployer na ma la bal)"
  by (simp add: history_inv_def deploy_def)

lemma history_inv_mintAsset:
  assumes "mintAsset sender now ty nm descr ver hash pub royalty pr forSale w = Inr w'"
    and "history_inv w"
  shows "history_inv w'"
  using assms
  by (auto simp: mintAsset_def safeMint_def history_inv_def Let_def bindE_eq_Inr
      split: if_splits)

lemma history_inv_updateAsset:
  assumes "updateAsset sender now t ver hash chlog w = Inr w'"
    and "history_inv w"
  shows "history_inv w'"
  using assms
  by (auto simp: updateAsset_def ownerOf_def history_inv_def Let_def bindE_eq_Inr
      split: if_splits)

lemma history_inv_exec:
  assumes "exec sender now c w = Inr w'" and "history_inv w"
  shows "history_inv w'"
  using assms
  by (cases c)
    (auto intro: history_inv_mintAsset history_inv_updateAsset
      dest: nft_calls_frame mkt_calls_frame lic_calls_frame history_inv_same)

lemma reachable_history_inv: "reachable w \<Longrightarrow> history_inv w"
  by (induction rule: reachable.induct) (auto intro: history_inv_deploy history_inv_exec)

subsection \<open>The licenses of a user\<close>

lemma lic_inv_deploy: "lic_inv (lic (deploy deployer na ma la bal))"
  by (simp add: lic_inv_def deploy_def)

lemma lic_inv_createLicense:
  assumes "createLicense sender val now t lcsee ty pr dur trms w = Inr w'"
    and "lic_inv (lic w)"
  shows "lic_inv (lic w')"
  using assms
  by (auto simp: createLicense_def lic_inv_def checked_add_def Let_def bindE_eq_Inr
      less_Suc_eq split: if_splits)

lemma lic_inv_others:
  "recordUsage sender now i act det w = Inr w' \<Longrightarrow> lic_inv (lic w) \<Longrightarrow> lic_inv (lic w')"
  "deactivateLicense sender i w = Inr w' \<Longrightarrow> lic_inv (lic w) \<Longrightarrow> lic_inv (lic w')"
  "setAssetLicensability sender t b w = Inr w' \<Longrightarrow> lic_inv (lic w) \<Longrightarrow> lic_inv (lic w')"
  "batchSetAssetLicensability sender ts bs w = Inr w' \<Longrightarrow> lic_inv (lic w) \<Longrightarrow> lic_inv (lic w')"
  "lic_pause sender w = Inr w' \<Longrightarrow> lic_inv (lic w) \<Longrightarrow> lic_inv (lic w')"
  "lic_unpause sender w = Inr w' \<Longrightarrow> lic_inv (lic w) \<Longrightarrow> lic_inv (lic w')"
  "lic_withdraw sender w = Inr w' \<Longrightarrow> lic_inv (lic w) \<Longrightarrow> lic_inv (lic w')"
  by (auto simp: recordUsage_def deactivateLicense_def setAssetLicensability_def
      batchSetAssetLicensability_def lic_pause_def lic_unpause_def lic_withdraw_def
      validLicense_def activeLicense_def lic_inv_def Let_def bindE_eq_Inr split: if_splits)

lemma lic_inv_exec:
  assumes "exec sender now c w = Inr w'" and "lic_inv (lic w)"
  shows "lic_inv (lic w')"
  using assms
  by (cases c)
    (auto intro: lic_inv_createLicense lic_inv_others
      dest: nft_calls_frame mkt_calls_frame)

lemma reachable_lic_inv: "reachable w \<Longrightarrow> lic_inv (lic w)"
  by (induction rule: reachable.induct) (auto intro: lic_inv_deploy lic_inv_exec)

lemma hasValidLicenseLoop_iff:
  "hasValidLicenseLoop ls ids t now \<longleftrightarrow>
     (\<exists>i \<in> set ids. l_assetTokenId (ls i) = t \<and> l_isActive (ls i) \<and>
        (l_endTime (ls i) = 0 \<or> now \<le> l_endTime (ls i)))"
  by (induction ids) (auto simp: Let_def)

lemma hasValidLicense_exists:
  assumes "reachable w"
  shows "hasValidLicense (lic w) now usr t \<longleftrightarrow>
     (\<exists>i < licenseIdCounter (lic w).
        licensee (licenses (lic w) i) = usr \<and>
        l_assetTokenId (licenses (lic w) i) = t \<and>
        l_isActive (licenses (lic w) i) \<and>
        (l_endTime (licenses (lic w) i) = 0 \<or> now \<le> l_endTime (licenses (lic w) i)))"
  using reachable_lic_inv [OF assms]
  by (auto simp: hasValidLicense_def hasValidLicenseLoop_iff lic_inv_def)

lemma run_reachable: "reachable w \<Longrightarrow> run cs w = Inr w' \<Longrightarrow> reachable w'"
proof (induction cs arbitrary: w)
  case Nil
  then show ?case by simp
next
  case (Cons c cs)
  obtain sender now call where c: "c = (sender, now, call)"
    by (cases c) auto
  from Cons.prems(2) obtain w1 where
    step: "exec sender now call w = Inr w1" and rest: "run cs w1 = Inr w'"
    by (auto simp: c bindE_eq_Inr)
  from Cons.prems(1) step have "reachable w1"
    by (rule reachable_exec)
  then show ?case
    using rest by (rule Cons.IH)
qed

lemma payout_ledger:
  assumes "(if 0 < r then transfer m c r bal else Inr bal) = Inr bal1"
    and "transfer m s sa bal1 = Inr bal2"
    and "(if 0 < f then transfer m ow f bal2 else Inr bal2) = Inr bal3"
    and "c \<noteq> m" and "s \<noteq> m" and "ow \<noteq> m"
  shows "r + sa + f \<le> bal m \<and>
         bal3 a = (if a = m then bal m - (r + sa + f)
                   else bal a + (if a = c then r else 0) + (if a = s then sa else 0)
                          + (if a = ow then f else 0))"
  using assms by (auto simp: transfer_Inr split: if_split_asm)

lemma buyFixedPriceOrder_expired:
  assumes "createFixedPriceOrder slr t0 t pr w = Inr w1" and "0 < now"
  shows "orders (mkt w1) (orderIdCounter (mkt w)) =
           \<lparr> orderId = orderIdCounter (mkt w), o_assetTokenId = t, seller = slr, buyer = 0,
             o_price = pr, o_startTime = t0, o_endTime = 0, o_isActive = True,
             isAuction = False, highestBid = 0, highestBidder = 0 \<rparr> \<and>
         buyFixedPriceOrder sender val now (orderIdCounter (mkt w)) w1 =
           Inl (if balances w1 sender < val then InsufficientFunds
                else if orderIdCounter (mkt w) = 0 then OrderNotFound
                else OrderExpired)"
proof -
  from assms(1) have o: "orders (mkt w1) (orderIdCounter (mkt w)) =
           \<lparr> orderId = orderIdCounter (mkt w), o_assetTokenId = t, seller = slr, buyer = 0,
             o_price = pr, o_startTime = t0, o_endTime = 0, o_isActive = True,
             isAuction = False, highestBid = 0, highestBidder = 0 \<rparr>"
    unfolding createFixedPriceOrder_def Let_def
    apply (elim bindE_InrE guard_InrE)
    apply auto
    done
  show ?thesis
    using o assms(2)
    by (simp add: buyFixedPriceOrder_def validOrder_def activeOrder_def pay_in_def Let_def)
qed

lemma buyAsset_clears:
  assumes "buyAsset sender val t w = Inr w'"
  shows "owners (nft w') t = sender \<and> \<not> isForSale (assets (nft w') t) \<and>
         price (assets (nft w') t) = 0"
  using assms unfolding buyAsset_def Let_def
  apply (elim bindE_InrE guard_InrE)
  apply (auto simp: erc721_transfer_def ownerOf_def split: if_split_asm)
  done

lemma withdrawBid_short:
  assumes "orderId (orders (mkt w) oid) \<noteq> 0" and "isAuction (orders (mkt w) oid)"
    and "highestBidder (orders (mkt w) oid) \<noteq> sender"
    and "balances w (mktAddr w) < findBid (orderBids (mkt w) oid) sender"
  shows "withdrawBid sender oid w = Inl TransferFailed"
  using assms by (simp add: withdrawBid_def validOrder_def transfer_def Let_def)

subsection \<open>The example ledgers are reachable\<close>

lemma reachable_genesis: "reachable genesis"
  unfolding genesis_def by (rule reachable_deploy)

lemma listed_run: "run listing_calls genesis = Inr listed"
  by (simp add: scenario_defs model_defs)

lemma reachable_listed: "reachable listed"
  using reachable_genesis listed_run by (rule run_reachable)

lemma reachable_licensed: "reachable licensed"
proof -
  have "exec 1 13 (SetAssetLicensability 0 True) listed = Inr licensable"
    by (simp add: scenario_defs model_defs)
  with reachable_listed have "reachable licensable"
    by (rule reachable_exec)
  moreover have "run [(2, 30, CreateLicense 25 0 3 RESEARCH 10 100 ''research use''),
                 (2, 31, CreateLicense 0 0 4 COMMERCIAL 0 0 [])] licensable = Inr licensed"
    by (simp add: scenario_defs model_defs)
  ultimately show ?thesis
    by (rule run_reachable)
qed

section \<open>The claims\<close>

subsection \<open>C1: buying a fixed-price order\<close>

text \<open>
  C1 says that a fixed-price order, created with \<open>endTime = 0\<close>, never expires, so
  that \<open>buyFixedPrice\<close> on an active order by a buyer other than the seller who pays
  the price succeeds, settles the sale and fills the order. The code does not do this:
  \<open>activeOrder\<close> wants \<open>block.timestamp \<le> endTime\<close> of every order, and the
  \<open>endTime\<close> of a fixed-price order is 0. On the example ledger, order 2 is the
  fixed-price order that \<open>createFixedPriceOrder\<close> has just made (active, price 100,
  seller 2); account 3 holds 1000 and sends the price at time 20: the call fails with
  \<open>OrderExpired\<close>.
\<close>

theorem fixed_price_order_expired:
  "createFixedPriceOrder 2 12 2 100
     (projr (run (butlast listing_calls) genesis)) = Inr listed \<and>
   orders (mkt listed) 2 =
     \<lparr> orderId = 2, o_assetTokenId = 2, seller = 2, buyer = 0, o_price = 100,
       o_startTime = 12, o_endTime = 0, o_isActive = True, isAuction = False,
       highestBid = 0, highestBidder = 0 \<rparr> \<and>
   balances listed 3 = 1000 \<and>
   buyFixedPriceOrder 3 100 20 2 listed = Inl OrderExpired"
  by (simp add: scenario_defs model_defs)

text \<open>
  The same for every fixed-price order and every time after 0: right after its creation
  the order cannot be bought by anyone, with any payment.
\<close>

lemma fixed_price_order_never_buyable:
  assumes "createFixedPriceOrder slr t0 t pr w = Inr w1" and "0 < now"
  shows "\<exists>e. buyFixedPriceOrder sender val now (orderIdCounter (mkt w)) w1 = Inl e"
  using buyFixedPriceOrder_expired [OF assms] by blast

subsection \<open>C2: the split of a sale price\<close>

text \<open>
  C2. With the marketplace fee rate and the royalty rate of the asset both at most 1000
  basis points, the split of a price \<open>p\<close> into \<open>fee = p * feeBps div 10000\<close>,
  \<open>royalty = p * royaltyBps div 10000\<close> and \<open>sellerAmount = p - fee - royalty\<close> never
  underflows (\<open>fee + royalty \<le> p\<close>), loses nothing (\<open>sellerAmount + royalty + fee = p\<close>)
  and is what the settlement computes (the only failure is an overflowing product). Every
  settled sale pays exactly these amounts, from the marketplace: \<open>royalty\<close> to the
  creator, \<open>sellerAmount\<close> to the seller, \<open>fee\<close> to the marketplace's owner, and
  nothing to anyone else; the token goes to the buyer, and the order gets its buyer and
  becomes inactive.
\<close>

theorem executeSale_conservation:
  assumes fee_bound: "marketplaceFee (mkt w) \<le> 1000"
    and royalty_bound:
      "royaltyPercentage (getAsset (nft w) (o_assetTokenId (orders (mkt w) oid))) \<le> 1000"
  shows "let order = orders (mkt w) oid;
             asset = getAsset (nft w) (o_assetTokenId order);
             fee = p * marketplaceFee (mkt w) div 10000;
             royalty = p * royaltyPercentage asset div 10000;
             sellerAmount = p - fee - royalty
         in fee + royalty \<le> p \<and>
            sellerAmount + royalty + fee = p \<and>
            saleAmounts p (marketplaceFee (mkt w)) (royaltyPercentage asset) =
              (if p * marketplaceFee (mkt w) \<le> MAX_UINT256 \<and>
                  p * royaltyPercentage asset \<le> MAX_UINT256
               then Inr (fee, royalty, sellerAmount) else Inl Panic) \<and>
            (\<forall>w'. executeSale oid byr p w = Inr w' \<longrightarrow>
               (\<exists>bal1 bal2.
                  (if 0 < royalty
                   then transfer (mktAddr w) (creator asset) royalty (balances w)
                   else Inr (balances w)) = Inr bal1 \<and>
                  transfer (mktAddr w) (seller order) sellerAmount bal1 = Inr bal2 \<and>
                  (if 0 < fee then transfer (mktAddr w) (mkt_owner (mkt w)) fee bal2
                   else Inr bal2) = Inr (balances w')) \<and>
               (creator asset \<noteq> mktAddr w \<and> seller order \<noteq> mktAddr w \<and>
                mkt_owner (mkt w) \<noteq> mktAddr w \<longrightarrow>
                  p \<le> balances w (mktAddr w) \<and>
                  (\<forall>a. balances w' a =
                     (if a = mktAddr w then balances w (mktAddr w) - p
                      else balances w a + (if a = creator asset then royalty else 0)
                             + (if a = seller order then sellerAmount else 0)
                             + (if a = mkt_owner (mkt w) then fee else 0)))) \<and>
               owners (nft w') (o_assetTokenId order) = byr \<and>
               orders (mkt w') oid = order\<lparr> buyer := byr, o_isActive := False \<rparr>)"
proof -
  let ?o = "orders (mkt w) oid"
  let ?a = "getAsset (nft w) (o_assetTokenId ?o)"
  let ?fee = "p * marketplaceFee (mkt w) div 10000"
  let ?roy = "p * royaltyPercentage ?a div 10000"
  let ?sel = "p - ?fee - ?roy"
  have shares: "?fee + ?roy \<le> p"
    by (rule bps_shares_le [OF fee_bound royalty_bound])
  then have total: "?sel + ?roy + ?fee = p"
    by simp
  note amounts = saleAmounts_eq [OF fee_bound royalty_bound, of p]
  have settled: "(\<exists>bal1 bal2.
        (if 0 < ?roy then transfer (mktAddr w) (creator ?a) ?roy (balances w)
         else Inr (balances w)) = Inr bal1 \<and>
        transfer (mktAddr w) (seller ?o) ?sel bal1 = Inr bal2 \<and>
        (if 0 < ?fee then transfer (mktAddr w) (mkt_owner (mkt w)) ?fee bal2 else Inr bal2)
          = Inr (balances w')) \<and>
      (creator ?a \<noteq> mktAddr w \<and> seller ?o \<noteq> mktAddr w \<and>
       mkt_owner (mkt w) \<noteq> mktAddr w \<longrightarrow>
         p \<le> balances w (mktAddr w) \<and>
         (\<forall>a. balances w' a =
            (if a = mktAddr w then balances w (mktAddr w) - p
             else balances w a + (if a = creator ?a then ?roy else 0)
                    + (if a = seller ?o then ?sel else 0)
                    + (if a = mkt_owner (mkt w) then ?fee else 0)))) \<and>
      owners (nft w') (o_assetTokenId ?o) = byr \<and>
      orders (mkt w') oid = ?o\<lparr> buyer := byr, o_isActive := False \<rparr>"
    if sale: "executeSale oid byr p w = Inr w'" for w'
  proof (rule executeSale_payout [OF sale])
    fix fee royalty sellerAmount s1 bal1 bal2
    assume a: "saleAmounts p (marketplaceFee (mkt w)) (royaltyPercentage ?a)
                = Inr (fee, royalty, sellerAmount)"
      and t: "transferFrom (mktAddr w) (seller ?o) byr (o_assetTokenId ?o) (nft w) = Inr s1"
      and pay1: "(if 0 < royalty then transfer (mktAddr w) (creator ?a) royalty (balances w)
                else Inr (balances w)) = Inr bal1"
      and pay2: "transfer (mktAddr w) (seller ?o) sellerAmount bal1 = Inr bal2"
      and pay3: "(if 0 < fee then transfer (mktAddr w) (mkt_owner (mkt w)) fee bal2
                else Inr bal2) = Inr (balances w')"
      and n: "nft w' = s1"
      and m: "mkt w' = (mkt w)\<lparr> orders := (orders (mkt w))(oid := ?o
                 \<lparr> buyer := byr, o_isActive := False \<rparr>) \<rparr>"
    from a have vals: "fee = ?fee" "royalty = ?roy" "sellerAmount = ?sel"
      by (auto simp: amounts split: if_splits)
    have chain: "\<exists>bal1 bal2.
        (if 0 < ?roy then transfer (mktAddr w) (creator ?a) ?roy (balances w)
         else Inr (balances w)) = Inr bal1 \<and>
        transfer (mktAddr w) (seller ?o) ?sel bal1 = Inr bal2 \<and>
        (if 0 < ?fee then transfer (mktAddr w) (mkt_owner (mkt w)) ?fee bal2 else Inr bal2)
          = Inr (balances w')"
      using pay1 pay2 pay3 unfolding vals by blast
    have ledger: "p \<le> balances w (mktAddr w) \<and>
         (\<forall>a. balances w' a =
            (if a = mktAddr w then balances w (mktAddr w) - p
             else balances w a + (if a = creator ?a then ?roy else 0)
                    + (if a = seller ?o then ?sel else 0)
                    + (if a = mkt_owner (mkt w) then ?fee else 0)))"
      if ne: "creator ?a \<noteq> mktAddr w \<and> seller ?o \<noteq> mktAddr w \<and>
       mkt_owner (mkt w) \<noteq> mktAddr w"
    proof -
      have sum: "?roy + ?sel + ?fee = p"
        using total by simp
      have "?roy + ?sel + ?fee \<le> balances w (mktAddr w) \<and>
         balances w' a = (if a = mktAddr w then balances w (mktAddr w) - (?roy + ?sel + ?fee)
                   else balances w a + (if a = creator ?a then ?roy else 0)
                          + (if a = seller ?o then ?sel else 0)
                          + (if a = mkt_owner (mkt w) then ?fee else 0))" for a
        using pay1 pay2 pay3 ne unfolding vals
        by (intro payout_ledger) simp_all
      then show ?thesis
        unfolding sum by blast
    qed
    have token: "owners (nft w') (o_assetTokenId ?o) = byr"
      using transferFrom_assets [OF t] n by simp
    have closed: "orders (mkt w') oid = ?o\<lparr> buyer := byr, o_isActive := False \<rparr>"
      using m by simp
    show ?thesis
      using chain ledger token closed by blast
  qed
  show ?thesis
    unfolding Let_def
    using shares total amounts settled by blast
qed

theorem executeSale_conservation_witness:
  "marketplaceFee (mkt auction_open) = 250 \<and>
   royaltyPercentage (getAsset (nft auction_open) (o_assetTokenId (orders (mkt auction_open) 1)))
     = 250 \<and>
   executeSale 1 4 150 auction_open = Inr auction_settled \<and>
   saleAmounts 150 250 250 = Inr (3, 3, 144) \<and>
   balances auction_open 101 = 150 \<and>
   balances auction_settled 101 = 0 \<and>
   balances auction_settled 2 = balances auction_open 2 + 3 + 144 \<and>
   balances auction_settled 1 = balances auction_open 1 + 3 \<and>
   balances auction_settled 5 = balances auction_open 5 \<and>
   owners (nft auction_settled) 1 = 4 \<and>
   buyer (orders (mkt auction_settled) 1) = 4 \<and>
   \<not> o_isActive (orders (mkt auction_settled) 1)"
proof -
  let ?a = "getAsset (nft auction_open) (o_assetTokenId (orders (mkt auction_open) 1))"
  have sale: "executeSale 1 4 150 auction_open = Inr auction_settled"
    by (simp add: scenario_defs model_defs)
  have fee: "marketplaceFee (mkt auction_open) = 250"
    and roy: "royaltyPercentage ?a = 250"
    and who: "creator ?a = 2" "seller (orders (mkt auction_open) 1) = 2"
      "mkt_owner (mkt auction_open) = 1" "mktAddr auction_open = 101"
      "o_assetTokenId (orders (mkt auction_open) 1) = 1"
    and held: "balances auction_open 101 = 150"
    by (simp_all add: scenario_defs model_defs)
  have bounds: "marketplaceFee (mkt auction_open) \<le> 1000" "royaltyPercentage ?a \<le> 1000"
    using fee roy by simp_all
  note split = executeSale_conservation [OF bounds, where p = 150 and byr = 4, unfolded Let_def]
  from split fee roy have amounts: "saleAmounts 150 250 250 = Inr (3, 3, 144)"
    by (simp add: MAX_UINT256_def)
  from split sale fee roy who have after:
    "\<forall>a. balances auction_settled a =
       (if a = 101 then balances auction_open 101 - 150
        else balances auction_open a + (if a = 2 then 3 else 0)
               + (if a = 2 then 144 else 0) + (if a = 1 then 3 else 0))"
    "owners (nft auction_settled) 1 = 4"
    "orders (mkt auction_settled) 1 =
       (orders (mkt auction_open) 1)\<lparr> buyer := 4, o_isActive := False \<rparr>"
    by simp_all
  show ?thesis
    using sale fee roy amounts held after by simp
qed

subsection \<open>C3: withdrawing a bid\<close>

text \<open>
  C3 says that \<open>withdrawBid\<close> refunds the bidder's last recorded bid. The loop of the
  code stops at the first bid of the caller. In the auction where account 3 bid 100 and
  then 200 (and account 4 now leads with 250), the withdrawal pays account 3 the first
  amount, 100, not the last, 200.
\<close>

theorem withdrawBid_last_bid_counterexample:
  "map bidder (orderBids (mkt auction_contested) 1) = [3, 4, 3, 4] \<and>
   map amount (orderBids (mkt auction_contested) 1) = [100, 150, 200, 250] \<and>
   isAuction (orders (mkt auction_contested) 1) \<and>
   highestBidder (orders (mkt auction_contested) 1) = 4 \<and>
   balances auction_contested 3 = 1000 \<and>
   \<not> isl (withdrawBid 3 1 auction_contested) \<and>
   balances (projr (withdrawBid 3 1 auction_contested)) 3 = 1100"
  by (simp add: scenario_defs model_defs)

text \<open>
  C3, amended. On an auction order that exists (its stored id is not 0), \<open>withdrawBid\<close>
  fails with \<open>IsHighestBidder\<close> when the caller is the highest bidder; otherwise it
  fails with \<open>NoBidFound\<close> when the caller has no recorded bid on the order (or the
  first one is of amount 0); otherwise it pays the caller the amount of the caller's
  first recorded bid on that order, and changes nothing else; it fails when the
  marketplace holds less than that amount.
\<close>

theorem withdrawBid_first_bid:
  assumes "orderId (orders (mkt w) oid) \<noteq> 0" and "isAuction (orders (mkt w) oid)"
  shows "withdrawBid sender oid w =
     (if highestBidder (orders (mkt w) oid) = sender then Inl IsHighestBidder
      else case filter (\<lambda>b. bidder b = sender) (orderBids (mkt w) oid) of
        [] \<Rightarrow> Inl NoBidFound
      | b # _ \<Rightarrow>
          if amount b = 0 then Inl NoBidFound
          else if balances w (mktAddr w) < amount b then Inl TransferFailed
          else Inr (w\<lparr> balances :=
                 ((balances w)(mktAddr w := balances w (mktAddr w) - amount b))
                   (sender := ((balances w)(mktAddr w := balances w (mktAddr w) - amount b)) sender
                              + amount b) \<rparr>))"
  using assms
  by (auto simp: withdrawBid_def validOrder_def findBid_filter transfer_def Let_def
      split: list.splits)

theorem withdrawBid_first_bid_witness:
  "orderId (orders (mkt auction_contested) 1) \<noteq> 0 \<and>
   isAuction (orders (mkt auction_contested) 1) \<and>
   filter (\<lambda>b. bidder b = 3) (orderBids (mkt auction_contested) 1) =
     [\<lparr> bidder = 3, amount = 100, b_timestamp = 20 \<rparr>,
      \<lparr> bidder = 3, amount = 200, b_timestamp = 22 \<rparr>] \<and>
   withdrawBid 3 1 auction_contested =
     Inr (auction_contested\<lparr> balances :=
        ((balances auction_contested)(mktAddr auction_contested :=
            balances auction_contested (mktAddr auction_contested) - 100))
          (3 := ((balances auction_contested)(mktAddr auction_contested :=
            balances auction_contested (mktAddr auction_contested) - 100)) 3 + 100) \<rparr>) \<and>
   withdrawBid 4 1 auction_contested = Inl IsHighestBidder \<and>
   withdrawBid 5 1 auction_contested = Inl NoBidFound"
proof -
  have h1: "orderId (orders (mkt auction_contested) 1) \<noteq> 0"
    and h2: "isAuction (orders (mkt auction_contested) 1)"
    by (simp_all add: scenario_defs model_defs)
  have bids: "orderBids (mkt auction_contested) 1 =
     [\<lparr> bidder = 3, amount = 100, b_timestamp = 20 \<rparr>,
      \<lparr> bidder = 4, amount = 150, b_timestamp = 21 \<rparr>,
      \<lparr> bidder = 3, amount = 200, b_timestamp = 22 \<rparr>,
      \<lparr> bidder = 4, amount = 250, b_timestamp = 23 \<rparr>]"
    "highestBidder (orders (mkt auction_contested) 1) = 4"
    "balances auction_contested (mktAddr auction_contested) = 250"
    by (simp_all add: scenario_defs model_defs)
  note spec = withdrawBid_first_bid [OF h1 h2]
  have w3: "withdrawBid 3 1 auction_contested =
     Inr (auction_contested\<lparr> balances :=
        ((balances auction_contested)(mktAddr auction_contested :=
            balances auction_contested (mktAddr auction_contested) - 100))
          (3 := ((balances auction_contested)(mktAddr auction_contested :=
            balances auction_contested (mktAddr auction_contested) - 100)) 3 + 100) \<rparr>)"
    unfolding spec bids by simp
  have w4: "withdrawBid 4 1 auction_contested = Inl IsHighestBidder"
    unfolding spec bids by simp
  have w5: "withdrawBid 5 1 auction_contested = Inl NoBidFound"
    unfolding spec bids by simp
  have mine: "filter (\<lambda>b. bidder b = 3) (orderBids (mkt auction_contested) 1) =
     [\<lparr> bidder = 3, amount = 100, b_timestamp = 20 \<rparr>,
      \<lparr> bidder = 3, amount = 200, b_timestamp = 22 \<rparr>]"
    unfolding bids by simp
  show ?thesis
    using h1 h2 mine w3 w4 w5 by (intro conjI)
qed

subsection \<open>C4: the sale flag after a sale\<close>

text \<open>
  C4 says that every transfer of ownership by a sale, the direct purchase and the
  settlement of an order alike, clears \<open>forSale\<close> and \<open>price\<close> of the asset. The direct
  purchase \<open>buyAsset\<close> does (lemma \<open>buyAsset_clears\<close>). \<open>_executeSale\<close> moves the token
  by the plain \<open>transferFrom\<close> of ERC721, which knows nothing of the asset records
  (lemma \<open>executeSale_frame\<close>): after the auction of order 1 is settled, account 4 owns
  asset 1, and the asset is still for sale at the price 100 that the seller had set.
\<close>

theorem settlement_keeps_listing:
  "endAuction 62 1 auction_open = Inr auction_settled \<and>
   highestBidder (orders (mkt auction_open) 1) = 4 \<and>
   owners (nft auction_open) 1 = 2 \<and>
   owners (nft auction_settled) 1 = 4 \<and>
   isForSale (assets (nft auction_settled) 1) \<and>
   price (assets (nft auction_settled) 1) = 100"
  by (simp add: scenario_defs model_defs)

text \<open>
  What follows from it: account 5 buys the asset from the winner of the auction, by
  \<open>buyAsset\<close>, for the stale price.
\<close>

lemma stale_listing_resale:
  "\<not> isl (buyAsset 5 100 1 auction_settled) \<and>
   owners (nft (projr (buyAsset 5 100 1 auction_settled))) 1 = 5"
  by (simp add: scenario_defs model_defs)

subsection \<open>C5: accepted bids\<close>

text \<open>
  C5. Every accepted bid is strictly greater than the highest bid before it and at least
  the starting price; after it the order's highest bid is the bid and its highest
  bidder is the bidder; the bid is appended to the order's bid log; and in the same
  transaction the displaced highest bidder is paid the full previous highest bid (a
  bidder who raises an own bid pays the new one and gets the old one back).
\<close>

theorem placeBid_monotone:
  assumes bid: "placeBid sender val now oid w = Inr w'"
  shows "highestBid (orders (mkt w) oid) < highestBid (orders (mkt w') oid) \<and>
         highestBid (orders (mkt w') oid) = val \<and>
         o_price (orders (mkt w') oid) \<le> val \<and>
         highestBidder (orders (mkt w') oid) = sender \<and>
         orderBids (mkt w') oid = orderBids (mkt w) oid @
           [\<lparr> bidder = sender, amount = val, b_timestamp = now \<rparr>] \<and>
         (highestBidder (orders (mkt w) oid) \<noteq> 0 \<and>
          highestBidder (orders (mkt w) oid) \<noteq> mktAddr w \<longrightarrow>
            balances w' (highestBidder (orders (mkt w) oid)) =
              balances w (highestBidder (orders (mkt w) oid))
                - (if highestBidder (orders (mkt w) oid) = sender then val else 0)
                + highestBid (orders (mkt w) oid))"
  using bid by (rule placeBid_effect)

theorem placeBid_monotone_witness:
  "placeBid 4 150 21 1 (projr (placeBid 3 100 20 1 listed)) = Inr auction_open \<and>
   highestBid (orders (mkt (projr (placeBid 3 100 20 1 listed))) 1) = 100 \<and>
   highestBidder (orders (mkt (projr (placeBid 3 100 20 1 listed))) 1) = 3 \<and>
   highestBid (orders (mkt auction_open) 1) = 150 \<and>
   highestBidder (orders (mkt auction_open) 1) = 4 \<and>
   balances auction_open 3 = balances (projr (placeBid 3 100 20 1 listed)) 3 + 100"
proof -
  have bid: "placeBid 4 150 21 1 (projr (placeBid 3 100 20 1 listed)) = Inr auction_open"
    by (simp add: scenario_defs model_defs)
  have prev: "highestBid (orders (mkt (projr (placeBid 3 100 20 1 listed))) 1) = 100"
    "highestBidder (orders (mkt (projr (placeBid 3 100 20 1 listed))) 1) = 3"
    "mktAddr (projr (placeBid 3 100 20 1 listed)) = 101"
    by (simp_all add: scenario_defs model_defs)
  show ?thesis
    using placeBid_monotone [OF bid] bid prev by simp
qed

subsection \<open>C6: a second call on a closed order\<close>

text \<open>
  C6 says that a second \<open>buyFixedPrice\<close>, \<open>endAuction\<close> or \<open>cancelOrder\<close> on a filled or
  cancelled order fails with \<open>OrderInactive\<close> or \<open>AlreadySold\<close>. \<open>endAuction\<close> has its
  own message for it: on the settled auction a second \<open>endAuction\<close> fails with
  \<open>AlreadyEnded\<close> ("Auction already ended").
\<close>

theorem second_endAuction_counterexample:
  "endAuction 62 1 auction_open = Inr auction_settled \<and>
   endAuction 70 1 auction_settled = Inl AlreadyEnded \<and>
   endAuction 70 1 auction_settled \<noteq> Inl OrderInactive \<and>
   endAuction 70 1 auction_settled \<noteq> Inl AlreadySold"
  by (simp add: scenario_defs model_defs)

text \<open>
  C6, amended. After a successful \<open>buyFixedPrice\<close>, \<open>endAuction\<close> or \<open>cancelOrder\<close> on an
  order, every further call of the three on that order fails, so that it moves no value
  and changes no state: \<open>buyFixedPrice\<close> with \<open>OrderInactive\<close>; \<open>cancelOrder\<close> with
  \<open>OrderInactive\<close> when called by the seller and \<open>NotSeller\<close> otherwise; \<open>endAuction\<close>
  with \<open>AlreadyEnded\<close> (with \<open>WrongOrderKind\<close> on a fixed-price order, and with
  \<open>NotExpired\<close> before the end time, which it checks first).
\<close>

theorem second_call_fails:
  assumes "buyFixedPriceOrder s1 v1 t1 oid w = Inr w' \<or> endAuction t1 oid w = Inr w' \<or>
           cancelOrder s1 oid w = Inr w'"
  shows "(val \<le> balances w' sender \<longrightarrow>
            buyFixedPriceOrder sender val now oid w' = Inl OrderInactive) \<and>
         cancelOrder sender oid w' =
            Inl (if seller (orders (mkt w') oid) = sender then OrderInactive else NotSeller) \<and>
         endAuction now oid w' =
            Inl (if \<not> isAuction (orders (mkt w') oid) then WrongOrderKind
                 else if now < o_endTime (orders (mkt w') oid) then NotExpired
                 else AlreadyEnded)"
proof -
  have "orderId (orders (mkt w') oid) \<noteq> 0 \<and> \<not> o_isActive (orders (mkt w') oid)"
    using assms buyFixedPriceOrder_closes endAuction_closes cancelOrder_closes by blast
  then show ?thesis
    using closed_order_calls by blast
qed

theorem second_call_fails_witness:
  "endAuction 62 1 auction_open = Inr auction_settled \<and>
   buyFixedPriceOrder 5 150 70 1 auction_settled = Inl OrderInactive \<and>
   cancelOrder 2 1 auction_settled = Inl OrderInactive \<and>
   cancelOrder 5 1 auction_settled = Inl NotSeller \<and>
   endAuction 70 1 auction_settled = Inl AlreadyEnded"
proof -
  have first: "endAuction 62 1 auction_open = Inr auction_settled"
    by (simp add: scenario_defs model_defs)
  then have "buyFixedPriceOrder 5 150 62 1 auction_open = Inr auction_settled \<or>
      endAuction 62 1 auction_open = Inr auction_settled \<or>
      cancelOrder 5 1 auction_open = Inr auction_settled"
    by simp
  note second = second_call_fails [OF this]
  have st: "150 \<le> balances auction_settled 5" "seller (orders (mkt auction_settled) 1) = 2"
    "isAuction (orders (mkt auction_settled) 1)" "o_endTime (orders (mkt auction_settled) 1) = 62"
    by (simp_all add: scenario_defs model_defs)
  show ?thesis
    using first second [of 150 5 70] second [of 150 2 70] st by simp
qed

subsection \<open>C7: minting content that exists\<close>

text \<open>
  C7 says that minting with a content hash of some recorded version fails with
  \<open>DuplicateContent\<close>. The modifiers of \<open>mintAsset\<close> run before its body: with a
  royalty above 1000 the call fails with \<open>InvalidRoyalty\<close>, whatever the hash. Here the
  hash is the one that \<open>updateAsset\<close> added to asset 0.
\<close>

theorem mintAsset_duplicate_counterexample:
  "run listing_calls genesis = Inr listed \<and>
   map v_ipfsHash (assetVersions (nft listed) 0) = [''h0'', ''h0b''] \<and>
   mintAsset 5 30 MODEL ''copy'' [] ''1'' ''h0b'' True 1001 0 False listed = Inl InvalidRoyalty \<and>
   mintAsset 5 30 MODEL ''copy'' [] ''1'' ''h0b'' True 1001 0 False listed \<noteq> Inl DuplicateContent"
  by (simp add: scenario_defs model_defs)

text \<open>
  C7, amended. In every reachable state, minting with a content hash that appears in the
  version history of any asset (the hashes added by \<open>updateAsset\<close> included) fails,
  and so leaves the registry unchanged: with \<open>DuplicateContent\<close> when the contract is
  not paused and the royalty is at most 1000, with \<open>Paused\<close> or \<open>InvalidRoyalty\<close>
  otherwise.
\<close>

theorem mintAsset_duplicate:
  assumes "reachable w" and "v \<in> set (assetVersions (nft w) t)"
  shows "mintAsset sender now ty nm descr ver (v_ipfsHash v) pub royalty pr forSale w =
     Inl (if nft_paused (nft w) then Paused
          else if 1000 < royalty then InvalidRoyalty
          else DuplicateContent)"
  using reachable_history_inv [OF assms(1)] assms(2)
  by (auto simp: history_inv_def mintAsset_def Let_def)

theorem mintAsset_duplicate_witness:
  "reachable listed \<and>
   \<lparr> v_version = ''2'', v_ipfsHash = ''h0b'', v_timestamp = 11, changelog = ''retrained'' \<rparr>
     \<in> set (assetVersions (nft listed) 0) \<and>
   mintAsset 5 30 MODEL ''copy'' [] ''1'' ''h0b'' True 250 0 False listed = Inl DuplicateContent \<and>
   mintAsset 5 30 MODEL ''copy'' [] ''1'' ''h0'' True 250 0 False listed = Inl DuplicateContent"
proof -
  have v1: "\<lparr> v_version = ''2'', v_ipfsHash = ''h0b'', v_timestamp = 11,
      changelog = ''retrained'' \<rparr> \<in> set (assetVersions (nft listed) 0)"
    and v0: "\<lparr> v_version = ''1'', v_ipfsHash = ''h0'', v_timestamp = 10,
      changelog = ''Initial version'' \<rparr> \<in> set (assetVersions (nft listed) 0)"
    and np: "\<not> nft_paused (nft listed)"
    by (simp_all add: scenario_defs model_defs)
  show ?thesis
    using mintAsset_duplicate [OF reachable_listed v1, of 5 30 MODEL "''copy''" "[]" "''1''" True 250 0 False]
      mintAsset_duplicate [OF reachable_listed v0, of 5 30 MODEL "''copy''" "[]" "''1''" True 250 0 False]
      reachable_listed v1 np
    by simp
qed

subsection \<open>C8: valid licences\<close>

text \<open>
  C8. In every reachable state, \<open>hasValidLicense(user, asset)\<close> is true exactly when
  some licence created for that user and asset is active and has \<open>endTime = 0\<close> or
  \<open>now \<le> endTime\<close>. So an active licence is valid at its \<open>endTime\<close> exactly; and
  at \<open>endTime + 1\<close> the answer is false when the user has no other licence for the
  asset.
\<close>

theorem hasValidLicense_iff:
  assumes "reachable w"
  shows "(hasValidLicense (lic w) now usr t \<longleftrightarrow>
            (\<exists>i < licenseIdCounter (lic w).
               licensee (licenses (lic w) i) = usr \<and>
               l_assetTokenId (licenses (lic w) i) = t \<and>
               l_isActive (licenses (lic w) i) \<and>
               (l_endTime (licenses (lic w) i) = 0 \<or> now \<le> l_endTime (licenses (lic w) i))))
       \<and>
         (i < licenseIdCounter (lic w) \<and> licensee (licenses (lic w) i) = usr \<and>
          l_assetTokenId (licenses (lic w) i) = t \<and> l_isActive (licenses (lic w) i) \<longrightarrow>
            hasValidLicense (lic w) (l_endTime (licenses (lic w) i)) usr t)
       \<and>
         (l_endTime (licenses (lic w) i) \<noteq> 0 \<and>
          (\<forall>j < licenseIdCounter (lic w).
             licensee (licenses (lic w) j) = usr \<and> l_assetTokenId (licenses (lic w) j) = t
               \<longrightarrow> j = i) \<longrightarrow>
            \<not> hasValidLicense (lic w) (l_endTime (licenses (lic w) i) + 1) usr t)"
proof (intro conjI impI)
  show "hasValidLicense (lic w) now usr t \<longleftrightarrow>
            (\<exists>i < licenseIdCounter (lic w).
               licensee (licenses (lic w) i) = usr \<and>
               l_assetTokenId (licenses (lic w) i) = t \<and>
               l_isActive (licenses (lic w) i) \<and>
               (l_endTime (licenses (lic w) i) = 0 \<or> now \<le> l_endTime (licenses (lic w) i)))"
    by (rule hasValidLicense_exists [OF assms])
next
  assume "i < licenseIdCounter (lic w) \<and> licensee (licenses (lic w) i) = usr \<and>
          l_assetTokenId (licenses (lic w) i) = t \<and> l_isActive (licenses (lic w) i)"
  then show "hasValidLicense (lic w) (l_endTime (licenses (lic w) i)) usr t"
    unfolding hasValidLicense_exists [OF assms] by blast
next
  assume only: "l_endTime (licenses (lic w) i) \<noteq> 0 \<and>
          (\<forall>j < licenseIdCounter (lic w).
             licensee (licenses (lic w) j) = usr \<and> l_assetTokenId (licenses (lic w) j) = t
               \<longrightarrow> j = i)"
  show "\<not> hasValidLicense (lic w) (l_endTime (licenses (lic w) i) + 1) usr t"
  proof
    assume "hasValidLicense (lic w) (l_endTime (licenses (lic w) i) + 1) usr t"
    then obtain j where j: "j < licenseIdCounter (lic w)"
      "licensee (licenses (lic w) j) = usr" "l_assetTokenId (licenses (lic w) j) = t"
      "l_endTime (licenses (lic w) j) = 0 \<or>
         l_endTime (licenses (lic w) i) + 1 \<le> l_endTime (licenses (lic w) j)"
      unfolding hasValidLicense_exists [OF assms] by blast
    with only have "j = i" by blast
    with j(4) only show False by simp
  qed
qed

theorem hasValidLicense_iff_witness:
  "reachable licensed \<and>
   l_endTime (licenses (lic licensed) 0) = 130 \<and>
   hasValidLicense (lic licensed) 130 3 0 \<and>
   \<not> hasValidLicense (lic licensed) 131 3 0 \<and>
   l_endTime (licenses (lic licensed) 1) = 0 \<and>
   hasValidLicense (lic licensed) 1000000 4 0"
proof -
  have st: "licenseIdCounter (lic licensed) = 2"
    "licenses (lic licensed) 0 =
       \<lparr> licenseId = 0, l_assetTokenId = 0, licensor = 2, licensee = 3,
         licenseType = RESEARCH, l_price = 10, duration = 100, l_startTime = 30,
         l_endTime = 130, l_isActive = True, terms = ''research use'', l_createdAt = 30 \<rparr>"
    "licenses (lic licensed) (Suc 0) =
       \<lparr> licenseId = 1, l_assetTokenId = 0, licensor = 2, licensee = 4,
         licenseType = COMMERCIAL, l_price = 0, duration = 0, l_startTime = 31,
         l_endTime = 0, l_isActive = True, terms = [], l_createdAt = 31 \<rparr>"
    by (simp_all add: scenario_defs model_defs)
  note iff = hasValidLicense_iff [OF reachable_licensed]
  have a: "hasValidLicense (lic licensed) 130 3 0"
    using iff [where now = 130 and usr = 3 and t = 0 and i = 0, THEN conjunct2, THEN conjunct1] st
    by simp
  have b: "\<not> hasValidLicense (lic licensed) 131 3 0"
    using iff [where now = 130 and usr = 3 and t = 0 and i = 0, THEN conjunct2, THEN conjunct2] st
    by (simp add: less_2_cases_iff)
  have c: "hasValidLicense (lic licensed) 1000000 4 0"
    unfolding iff [where i = 0, THEN conjunct1]
    by (rule exI [of _ "Suc 0"]) (simp add: st)
  show ?thesis
    using reachable_licensed a b c st by simp
qed

subsection \<open>C9: withdrawing again\<close>

text \<open>
  C9. A successful \<open>withdrawBid\<close> changes nothing but balances: the bid stays in the
  log, unmarked. So the same bidder can withdraw again and is paid the same amount
  again; the only thing that stops it is a marketplace that holds less than the amount
  (then the call fails with \<open>TransferFailed\<close>). And a bidder whose bid was refunded
  when a higher bid displaced it can still withdraw that amount, on the same condition
  (stated here for a bidder's first bid on the order, the one the loop finds).
\<close>

theorem withdrawBid_repeatable:
  "(withdrawBid sender oid w = Inr w' \<and> sender \<noteq> mktAddr w \<longrightarrow>
      mkt w' = mkt w \<and> nft w' = nft w \<and> lic w' = lic w \<and>
      0 < findBid (orderBids (mkt w) oid) sender \<and>
      balances w' sender = balances w sender + findBid (orderBids (mkt w) oid) sender \<and>
      (findBid (orderBids (mkt w) oid) sender \<le> balances w' (mktAddr w) \<longrightarrow>
         (\<exists>w''. withdrawBid sender oid w' = Inr w'' \<and> mkt w'' = mkt w \<and>
            balances w'' sender = balances w' sender + findBid (orderBids (mkt w) oid) sender)) \<and>
      (balances w' (mktAddr w) < findBid (orderBids (mkt w) oid) sender \<longrightarrow>
         withdrawBid sender oid w' = Inl TransferFailed))
   \<and>
   (placeBid b1 v1 t1 oid w0 = Inr w1 \<and> placeBid b2 v2 t2 oid w1 = Inr w2 \<and>
    b1 \<noteq> b2 \<and> b1 \<noteq> 0 \<and> b1 \<noteq> mktAddr w0 \<and>
    (\<forall>b \<in> set (orderBids (mkt w0) oid). bidder b \<noteq> b1) \<longrightarrow>
      balances w2 b1 = balances w1 b1 + v1 \<and>
      findBid (orderBids (mkt w2) oid) b1 = v1 \<and>
      (v1 \<le> balances w2 (mktAddr w0) \<longrightarrow>
         (\<exists>w3. withdrawBid b1 oid w2 = Inr w3 \<and> mkt w3 = mkt w2 \<and>
            balances w3 b1 = balances w2 b1 + v1)) \<and>
      (balances w2 (mktAddr w0) < v1 \<longrightarrow> withdrawBid b1 oid w2 = Inl TransferFailed))"
proof (intro conjI impI)
  assume h: "withdrawBid sender oid w = Inr w' \<and> sender \<noteq> mktAddr w"
  then show "mkt w' = mkt w" "nft w' = nft w" "lic w' = lic w"
    "0 < findBid (orderBids (mkt w) oid) sender"
    "balances w' sender = balances w sender + findBid (orderBids (mkt w) oid) sender"
    by (auto simp: withdrawBid_Inr)
  {
    assume "findBid (orderBids (mkt w) oid) sender \<le> balances w' (mktAddr w)"
    with h show "\<exists>w''. withdrawBid sender oid w' = Inr w'' \<and> mkt w'' = mkt w \<and>
            balances w'' sender = balances w' sender + findBid (orderBids (mkt w) oid) sender"
      by (auto simp: withdrawBid_Inr)
  }
  {
    assume short: "balances w' (mktAddr w) < findBid (orderBids (mkt w) oid) sender"
    from h have "orderId (orders (mkt w') oid) \<noteq> 0" "isAuction (orders (mkt w') oid)"
      "highestBidder (orders (mkt w') oid) \<noteq> sender" "mktAddr w' = mktAddr w"
      "orderBids (mkt w') oid = orderBids (mkt w) oid"
      by (auto simp: withdrawBid_Inr)
    with short show "withdrawBid sender oid w' = Inl TransferFailed"
      by (intro withdrawBid_short) simp_all
  }
next
  assume h: "placeBid b1 v1 t1 oid w0 = Inr w1 \<and> placeBid b2 v2 t2 oid w1 = Inr w2 \<and>
    b1 \<noteq> b2 \<and> b1 \<noteq> 0 \<and> b1 \<noteq> mktAddr w0 \<and>
    (\<forall>b \<in> set (orderBids (mkt w0) oid). bidder b \<noteq> b1)"
  then have bid1: "placeBid b1 v1 t1 oid w0 = Inr w1"
    and bid2: "placeBid b2 v2 t2 oid w1 = Inr w2"
    and ne: "b1 \<noteq> b2" "b1 \<noteq> 0" "b1 \<noteq> mktAddr w0"
    and fresh: "\<forall>b \<in> set (orderBids (mkt w0) oid). bidder b \<noteq> b1"
    by simp_all
  have st1: "highestBid (orders (mkt w1) oid) = v1" "highestBidder (orders (mkt w1) oid) = b1"
    "orderBids (mkt w1) oid = orderBids (mkt w0) oid @
       [\<lparr> bidder = b1, amount = v1, b_timestamp = t1 \<rparr>]"
    "mktAddr w1 = mktAddr w0" "0 < v1"
    using bid1 by (auto elim!: placeBid_Inr)
  have st2: "orderBids (mkt w2) oid = orderBids (mkt w1) oid @
       [\<lparr> bidder = b2, amount = v2, b_timestamp = t2 \<rparr>]"
    "highestBidder (orders (mkt w2) oid) = b2"
    "orderId (orders (mkt w2) oid) \<noteq> 0" "isAuction (orders (mkt w2) oid)"
    "mktAddr w2 = mktAddr w1"
    using bid2 by (auto elim!: placeBid_Inr)
  show refund: "balances w2 b1 = balances w1 b1 + v1"
    using placeBid_effect [OF bid2] st1 ne by simp
  show found: "findBid (orderBids (mkt w2) oid) b1 = v1"
    using fresh ne st1 by (simp add: st2 st1 findBid_append findBid_none)
  {
    assume "v1 \<le> balances w2 (mktAddr w0)"
    then show "\<exists>w3. withdrawBid b1 oid w2 = Inr w3 \<and> mkt w3 = mkt w2 \<and>
            balances w3 b1 = balances w2 b1 + v1"
      using found st1 st2 ne by (auto simp: withdrawBid_Inr)
  }
  {
    assume "balances w2 (mktAddr w0) < v1"
    then show "withdrawBid b1 oid w2 = Inl TransferFailed"
      using found st1 st2 ne by (intro withdrawBid_short) simp_all
  }
qed

theorem withdrawBid_repeatable_witness:
  "withdrawBid 3 1 auction_raised = Inr (projr (withdrawBid 3 1 auction_raised)) \<and>
   withdrawBid 3 1 (projr (withdrawBid 3 1 auction_raised)) =
     Inr (projr (withdrawBid 3 1 (projr (withdrawBid 3 1 auction_raised)))) \<and>
   orderBids (mkt (projr (withdrawBid 3 1 auction_raised))) 1 =
     orderBids (mkt auction_raised) 1 \<and>
   balances auction_raised 3 = 1000 \<and>
   balances (projr (withdrawBid 3 1 auction_raised)) 3 = 1100 \<and>
   balances (projr (withdrawBid 3 1 (projr (withdrawBid 3 1 auction_raised)))) 3 = 1200 \<and>
   placeBid 3 100 20 1 listed = Inr (projr (placeBid 3 100 20 1 listed)) \<and>
   placeBid 4 350 21 1 (projr (placeBid 3 100 20 1 listed)) = Inr auction_raised \<and>
   balances (projr (placeBid 3 100 20 1 listed)) 3 = 900"
proof -
  let ?w1 = "projr (withdrawBid 3 1 auction_raised)"
  let ?b1 = "projr (placeBid 3 100 20 1 listed)"
  have first: "withdrawBid 3 1 auction_raised = Inr ?w1"
    and ne: "3 \<noteq> mktAddr auction_raised"
    and found: "findBid (orderBids (mkt auction_raised) 1) 3 = 100"
    and before: "balances auction_raised 3 = 1000"
    and funds: "100 \<le> balances ?w1 (mktAddr auction_raised)"
    by (simp_all add: scenario_defs model_defs)
  have bid1: "placeBid 3 100 20 1 listed = Inr ?b1"
    and bid2: "placeBid 4 350 21 1 ?b1 = Inr auction_raised"
    and fresh: "\<forall>b \<in> set (orderBids (mkt listed) 1). bidder b \<noteq> 3"
    and ne': "3 \<noteq> mktAddr listed"
    and b1: "balances ?b1 3 = 900"
    by (simp_all add: scenario_defs model_defs)
  note p1 = withdrawBid_repeatable [where sender = 3 and oid = 1 and w = auction_raised
      and w' = ?w1, THEN conjunct1, rule_format]
  note p2 = withdrawBid_repeatable [where oid = 1 and w0 = listed and ?b1.0 = 3 and ?v1.0 = 100
      and ?t1.0 = 20 and ?w1.0 = ?b1 and ?b2.0 = 4 and ?v2.0 = 350 and ?t2.0 = 21
      and ?w2.0 = auction_raised, THEN conjunct2, rule_format]
  note part1 = p1 [OF conjI [OF first ne]]
  from part1 found funds obtain w'' where again0: "withdrawBid 3 1 ?w1 = Inr w''"
    "balances w'' 3 = balances ?w1 3 + 100"
    by auto
  then have again: "withdrawBid 3 1 ?w1 = Inr (projr (withdrawBid 3 1 ?w1))"
    "balances (projr (withdrawBid 3 1 ?w1)) 3 = balances ?w1 3 + 100"
    by simp_all
  have part2: "balances auction_raised 3 = balances ?b1 3 + 100"
    using p2 bid1 bid2 fresh ne' by simp
  show ?thesis
    using first again part1 found before bid1 bid2 b1 part2 by simp
qed

subsection \<open>C10: who pays for a licence\<close>

text \<open>
  C10. The licensor of a licence made by \<open>createLicense\<close> is the caller, who is also
  the payer; the price and the excess are both paid to the caller. So after every
  successful \<open>createLicense\<close> every balance is what it was: the caller has paid nothing
  and the licensee has paid nothing.
\<close>

theorem createLicense_pays_caller:
  assumes "createLicense sender val now t lcsee ty pr dur trms w = Inr w'"
  shows "licensor (licenses (lic w') (licenseIdCounter (lic w))) = sender \<and>
         licensee (licenses (lic w') (licenseIdCounter (lic w))) = lcsee \<and>
         l_price (licenses (lic w') (licenseIdCounter (lic w))) = pr \<and>
         lcsee \<noteq> sender \<and> pr \<le> val \<and> val \<le> balances w sender \<and>
         (\<exists>bal0 bal1.
            pay_in sender (licAddr w) val (balances w) = Inr bal0 \<and>
            (if 0 < pr then transfer (licAddr w) sender pr bal0 else Inr bal0) = Inr bal1 \<and>
            (if pr < val then transfer (licAddr w) sender (val - pr) bal1 else Inr bal1)
              = Inr (balances w')) \<and>
         balances w' sender = balances w sender \<and>
         balances w' lcsee = balances w lcsee \<and>
         balances w' = balances w"
proof -
  from createLicense_Inr [OF assms] obtain bal0 bal1 endT where
    p0: "pay_in sender (licAddr w) val (balances w) = Inr bal0"
    and p1: "(if 0 < pr then transfer (licAddr w) sender pr bal0 else Inr bal0) = Inr bal1"
    and p2: "(if pr < val then transfer (licAddr w) sender (val - pr) bal1 else Inr bal1)
       = Inr (balances w')"
    and ne: "lcsee \<noteq> sender" and le: "pr \<le> val"
    and l: "licenses (lic w') = (licenses (lic w))(licenseIdCounter (lic w) :=
       \<lparr> licenseId = licenseIdCounter (lic w), l_assetTokenId = t, licensor = sender,
         licensee = lcsee, licenseType = ty, l_price = pr, duration = dur,
         l_startTime = now, l_endTime = endT, l_isActive = True, terms = trms,
         l_createdAt = now \<rparr>)"
    by blast
  have same: "balances w' = balances w"
    by (rule round_trip [OF p0 le p1 p2])
  have funded: "val \<le> balances w sender"
    using p0 by (simp add: pay_in_Inr)
  have chain: "\<exists>bal0 bal1.
            pay_in sender (licAddr w) val (balances w) = Inr bal0 \<and>
            (if 0 < pr then transfer (licAddr w) sender pr bal0 else Inr bal0) = Inr bal1 \<and>
            (if pr < val then transfer (licAddr w) sender (val - pr) bal1 else Inr bal1)
              = Inr (balances w')"
    using p0 p1 p2 by blast
  show ?thesis
    using l ne le same funded chain by simp
qed

theorem createLicense_pays_caller_witness:
  "createLicense 2 25 30 0 3 RESEARCH 10 100 ''research use'' licensable =
     Inr (projr (createLicense 2 25 30 0 3 RESEARCH 10 100 ''research use'' licensable)) \<and>
   licensor (licenses (lic (projr
     (createLicense 2 25 30 0 3 RESEARCH 10 100 ''research use'' licensable))) 0) = 2 \<and>
   balances licensable 2 = 1000 \<and>
   balances (projr (createLicense 2 25 30 0 3 RESEARCH 10 100 ''research use'' licensable)) 2
     = 1000 \<and>
   balances (projr (createLicense 2 25 30 0 3 RESEARCH 10 100 ''research use'' licensable)) 3
     = balances licensable 3"
proof -
  let ?w = "projr (createLicense 2 25 30 0 3 RESEARCH 10 100 ''research use'' licensable)"
  have made: "createLicense 2 25 30 0 3 RESEARCH 10 100 ''research use'' licensable = Inr ?w"
    and st: "licenseIdCounter (lic licensable) = 0" "balances licensable 2 = 1000"
    by (simp_all add: scenario_defs model_defs)
  show ?thesis
    using createLicense_pays_caller [OF made] made st by simp
qed

end
